theory Spec2Isabelle
  imports Complex_Main
begin

section \<open>AndicBlue: orders, inventory, payments and cash flow\<close>

text \<open>
  A shallow embedding of the business logic of \<^verbatim>\<open>andicblue_streamlit_gs.py\<close>.
  The five worksheets are lists of rows, in sheet order and without the header row; a
  data frame read from a worksheet is that list. Python integers are \<open>int\<close>. Python
  floats are idealised as \<open>real\<close>: the amounts are whole pesos, on which the double
  arithmetic of the source (\<open>min\<close>, \<open>max\<close>, \<open>-\<close>, \<open>+\<close>) is exact. A Python
  dictionary is an association list in iteration order; its keys are distinct. Strings are
  byte strings (UTF-8). The time stamp \<open>datetime.now()\<close> is a parameter.
\<close>

subsection \<open>Configuration\<close>

definition PRODUCTOS :: "(string \<times> int) list" where
  "PRODUCTOS =
     [(''Docena de Ar'' @ [CHR 0xC3, CHR 0xA1] @ ''ndanos 125g'', 52500),
      (''Arandanos_125g'', 5000),
      (''Arandanos_250g'', 10000),
      (''Arandanos_500g'', 20000),
      (''Kilo_industrial'', 30000),
      (''Mermelada_azucar'', 16000),
      (''Mermelada_sin_azucar'', 20000)]"

definition DOMICILIO_COST :: int where
  "DOMICILIO_COST = 3000"

subsection \<open>Worksheets\<close>

record cliente =
  c_id :: int
  c_nombre :: string
  c_telefono :: string
  c_direccion :: string

record pedido =
  p_id :: int
  p_fecha :: string
  p_id_cliente :: int
  p_nombre_cliente :: string
  p_productos_detalle :: string
  p_subtotal_productos :: int
  p_monto_domicilio :: int
  p_total_pedido :: int
  p_estado :: string
  p_medio_pago :: string
  p_monto_pagado :: real
  p_saldo_pendiente :: real

type_synonym inv_row = "string \<times> int"

record flujo =
  f_fecha :: string
  f_id_pedido :: int
  f_cliente :: string
  f_medio_pago :: string
  f_ingreso_productos_recibido :: real
  f_ingreso_domicilio_recibido :: real
  f_saldo_pendiente_total :: real

record gasto =
  g_fecha :: string
  g_concepto :: string
  g_monto :: real

record store =
  ws_clientes :: "cliente list"
  ws_pedidos :: "pedido list"
  ws_inventario :: "inv_row list"
  ws_flujo :: "flujo list"
  ws_gastos :: "gasto list"

text \<open>
  Every exception of the source is a value. The three \<open>raise ValueError(...)\<close> of
  \<open>create_order\<close> and the one of \<open>mark_order_delivered\<close> differ by their message,
  which is kept. \<open>KeyError\<close> is what pandas raises when a column is read from a data frame
  without columns (the frame of a worksheet with no data row); \<open>IndexError\<close> is
  \<open>[0]\<close> on an empty list.
\<close>

datatype error = ValueError string | KeyError string | IndexError

subsection \<open>Python helpers\<close>

definition digit_char :: "nat \<Rightarrow> char" where
  "digit_char d = ''0123456789'' ! d"

fun str_nat :: "nat \<Rightarrow> string" where
  "str_nat n = (if n < 10 then [digit_char n] else str_nat (n div 10) @ [digit_char (n mod 10)])"

declare str_nat.simps [simp del]

text \<open>\<open>str(i)\<close>, as an f-string renders an integer.\<close>

definition str_int :: "int \<Rightarrow> string" where
  "str_int i = (if i < 0 then CHR ''-'' # str_nat (nat (- i)) else str_nat (nat i))"

text \<open>\<open>sep.join(xs)\<close>.\<close>

fun join :: "string \<Rightarrow> string list \<Rightarrow> string" where
  "join sep [] = []"
| "join sep [x] = x"
| "join sep (x # y # ys) = x @ sep @ join sep (y # ys)"

text \<open>\<open>df.index[...].tolist()\<close> followed by \<open>[0]\<close>: the first matching row, if any.\<close>

fun first_index :: "('a \<Rightarrow> bool) \<Rightarrow> 'a list \<Rightarrow> nat option" where
  "first_index P [] = None"
| "first_index P (x # xs) = (if P x then Some 0 else map_option Suc (first_index P xs))"

subsection \<open>Identifiers and customers\<close>

text \<open>
  \<open>next_id_for_sheet\<close>, on the identifier column of the worksheet: 1 for an empty
  sheet, the maximum plus one otherwise.
\<close>

fun max_list :: "int list \<Rightarrow> int" where
  "max_list [] = 0"
| "max_list [x] = x"
| "max_list (x # y # ys) = max x (max_list (y # ys))"

definition next_id_for_sheet :: "int list \<Rightarrow> int" where
  "next_id_for_sheet existing = (if existing = [] then 1 else max_list existing + 1)"

definition add_cliente :: "store \<Rightarrow> string \<Rightarrow> string \<Rightarrow> string \<Rightarrow> int \<times> store" where
  "add_cliente st nombre telefono direccion =
     (let cid = next_id_for_sheet (map c_id (ws_clientes st))
      in (cid, st\<lparr>ws_clientes := ws_clientes st @
            [\<lparr>c_id = cid, c_nombre = nombre, c_telefono = telefono, c_direccion = direccion\<rparr>]\<rparr>))"

text \<open>
  The handler of the form \<open>form_add_cliente\<close>, once submitted: an empty name is
  refused with the message \<open>Nombre requerido\<close> and nothing is written.
\<close>

definition form_add_cliente :: "store \<Rightarrow> string \<Rightarrow> string \<Rightarrow> string \<Rightarrow> (string + int) \<times> store" where
  "form_add_cliente st n t d =
     (if n = [] then (Inl ''Nombre requerido'', st)
      else (let (cid, st') = add_cliente st n t d in (Inr cid, st')))"

subsection \<open>Inventory\<close>

text \<open>
  \<open>get_inventory_map\<close>: a dictionary comprehension over the rows, so a later row of
  the same product overrides an earlier one.
\<close>

definition get_inventory_map :: "inv_row list \<Rightarrow> (string \<rightharpoonup> int)" where
  "get_inventory_map ws = map_of (rev ws)"

text \<open>\<open>update_cell(idx + 2, 2, v)\<close>: the stock cell of data row \<open>idx\<close>.\<close>

definition update_stock_cell :: "inv_row list \<Rightarrow> nat \<Rightarrow> int \<Rightarrow> inv_row list" where
  "update_stock_cell ws idx v = ws[idx := (fst (ws ! idx), v)]"

text \<open>
  The loop of \<open>update_inventory_after_order\<close>. \<open>inv_df\<close> is the data frame read before
  the loop, \<open>ws\<close> the worksheet: \<open>update_cell\<close> writes to the worksheet only, and
  the frame is read again after a row is appended.
\<close>

fun update_inventory_loop ::
  "inv_row list \<Rightarrow> inv_row list \<Rightarrow> (string \<times> int) list \<Rightarrow> error option \<times> inv_row list" where
  "update_inventory_loop inv_df ws [] = (None, ws)"
| "update_inventory_loop inv_df ws ((prod_name, qty) # rest) =
     (if inv_df = [] then (Some (KeyError ''Producto''), ws)
      else (case first_index (\<lambda>r. fst r = prod_name) inv_df of
              None \<Rightarrow>
                (let ws' = ws @ [(prod_name, max 0 (- qty))]
                 in update_inventory_loop ws' ws' rest)
            | Some idx \<Rightarrow>
                (let current = snd (inv_df ! idx);
                     new_stock = max 0 (current - qty)
                 in update_inventory_loop inv_df (update_stock_cell ws idx new_stock) rest)))"

definition update_inventory_after_order ::
  "inv_row list \<Rightarrow> (string \<times> int) list \<Rightarrow> error option \<times> inv_row list" where
  "update_inventory_after_order ws products_qty = update_inventory_loop ws ws products_qty"

text \<open>
  The handler of the form \<open>form_update_inventory\<close>: the quantity comes from a number
  input with \<open>min_value=0\<close>, hence a natural number, and is added to the stock.
\<close>

definition form_update_inventory :: "store \<Rightarrow> string \<Rightarrow> nat \<Rightarrow> (error + int) \<times> store" where
  "form_update_inventory st prod_name nueva =
     (case first_index (\<lambda>r. fst r = prod_name) (ws_inventario st) of
        None \<Rightarrow> (Inl IndexError, st)
      | Some idx \<Rightarrow>
          (let current = snd (ws_inventario st ! idx)
           in (Inr (current + int nueva),
               st\<lparr>ws_inventario := update_stock_cell (ws_inventario st) idx (current + int nueva)\<rparr>)))"

subsection \<open>Placing an order\<close>

text \<open>The stock validation loop of \<open>create_order\<close>; \<open>None\<close> when nothing is raised.\<close>

fun validar_stock :: "(string \<rightharpoonup> int) \<Rightarrow> (string \<times> int) list \<Rightarrow> error option" where
  "validar_stock inv_map [] = None"
| "validar_stock inv_map ((p, q) # rest) =
     (if q \<le> 0 then validar_stock inv_map rest
      else (case inv_map p of
              None \<Rightarrow> Some (ValueError (''Producto no existe en inventario: '' @ p))
            | Some s \<Rightarrow>
                if s < q
                then Some (ValueError (''Stock insuficiente para '' @ p @ '': disponible ''
                                        @ str_int s @ '', pedido '' @ str_int q))
                else validar_stock inv_map rest))"

text \<open>\<open>PRODUCTOS.get(p) if p in PRODUCTOS else 0\<close>.\<close>

definition precio_de :: "string \<Rightarrow> int" where
  "precio_de p = (case map_of PRODUCTOS p of Some v \<Rightarrow> v | None \<Rightarrow> 0)"

text \<open>
  The f-string of one line of the detail: the product, \<open>x\<close> and the quantity, then
  the unit price after an at sign, in parentheses.
\<close>

definition detalle_item :: "string \<Rightarrow> int \<Rightarrow> int \<Rightarrow> string" where
  "detalle_item p q precio = p @ '' x'' @ str_int q @ '' (@'' @ str_int precio @ '')''"

text \<open>The subtotal loop of \<open>create_order\<close>, with its two accumulators.\<close>

fun subtotal_loop :: "(string \<times> int) list \<Rightarrow> int \<Rightarrow> string list \<Rightarrow> int \<times> string list" where
  "subtotal_loop [] subtotal detalle = (subtotal, detalle)"
| "subtotal_loop ((p, q) # rest) subtotal detalle =
     (let precio = precio_de p;
          subtotal' = subtotal + precio * q;
          detalle' = (if q > 0 then detalle @ [detalle_item p q precio] else detalle)
      in subtotal_loop rest subtotal' detalle')"

text \<open>
  \<open>create_order\<close>. The result pairs what the call returns or raises with the store
  it leaves, so that a raise after a write is visible: the customer is checked, then the
  stock of every line, and only then the order row is appended and the stock updated.
\<close>

definition create_order ::
  "store \<Rightarrow> string \<Rightarrow> int \<Rightarrow> (string \<times> int) list \<Rightarrow> bool \<Rightarrow> (error + int) \<times> store" where
  "create_order st fecha cliente_id productos_cant domicilio_bool =
     (let clientes_df = ws_clientes st in
      if clientes_df = [] \<or> cliente_id \<notin> set (map c_id clientes_df)
      then (Inl (ValueError ''ID cliente no encontrado''), st)
      else
        (let client_name = c_nombre (hd (filter (\<lambda>c. c_id c = cliente_id) clientes_df));
             inv_map = get_inventory_map (ws_inventario st)
         in case validar_stock inv_map productos_cant of
              Some e \<Rightarrow> (Inl e, st)
            | None \<Rightarrow>
               (let (subtotal, detalle) = subtotal_loop productos_cant 0 [];
                    domicilio_monto = (if domicilio_bool then DOMICILIO_COST else 0);
                    total_pedido = subtotal + domicilio_monto;
                    pid = next_id_for_sheet (map p_id (ws_pedidos st));
                    productos_detalle_str = (if detalle \<noteq> [] then join '' | '' detalle else '''');
                    st1 = st\<lparr>ws_pedidos := ws_pedidos st @
                            [\<lparr>p_id = pid, p_fecha = fecha, p_id_cliente = cliente_id,
                              p_nombre_cliente = client_name,
                              p_productos_detalle = productos_detalle_str,
                              p_subtotal_productos = subtotal,
                              p_monto_domicilio = domicilio_monto,
                              p_total_pedido = total_pedido,
                              p_estado = ''Pendiente'', p_medio_pago = '''',
                              p_monto_pagado = 0, p_saldo_pendiente = real_of_int subtotal\<rparr>]\<rparr>
                in case update_inventory_after_order (ws_inventario st1) productos_cant of
                     (Some e, inv') \<Rightarrow> (Inl e, st1\<lparr>ws_inventario := inv'\<rparr>)
                   | (None, inv') \<Rightarrow> (Inr pid, st1\<lparr>ws_inventario := inv'\<rparr>))))"

text \<open>
  The order form \<open>form_new_order\<close> builds the dictionary by iterating over the catalog;
  each quantity comes from a number input with \<open>min_value=0\<close>.
\<close>

definition form_new_order_cant :: "(string \<Rightarrow> nat) \<Rightarrow> (string \<times> int) list" where
  "form_new_order_cant q = map (\<lambda>(p, price). (p, int (q p))) PRODUCTOS"

subsection \<open>Delivery and payment\<close>

text \<open>
  The dictionary that \<open>mark_order_delivered\<close> returns.
\<close>

record pago =
  prod_paid :: real
  domicilio_paid :: real
  saldo_total :: real

text \<open>
  \<open>mark_order_delivered\<close>. The order is the first row with the identifier; when
  there is none (the sheet is empty or does not hold the identifier) the source raises
  \<open>Pedido no encontrado\<close>. The payment goes to the product subtotal first and then to
  the delivery fee; the row is updated cell by cell and one cash-flow row is appended.
  The total of the order is read by the source but not used.
\<close>

definition mark_order_delivered ::
  "store \<Rightarrow> string \<Rightarrow> int \<Rightarrow> string \<Rightarrow> real \<Rightarrow> (error + pago) \<times> store" where
  "mark_order_delivered st fecha order_id medio_pago monto_pagado =
     (let dfp = ws_pedidos st in
      case first_index (\<lambda>r. p_id r = order_id) dfp of
        None \<Rightarrow> (Inl (ValueError ''Pedido no encontrado''), st)
      | Some row_idx \<Rightarrow>
          (let row = dfp ! row_idx;
               subtotal_products = real_of_int (p_subtotal_productos row);
               domicilio_monto = real_of_int (p_monto_domicilio row);
               monto = monto_pagado;
               prod_paid = min monto subtotal_products;
               rem = max 0 (monto - prod_paid);
               domicilio_paid = min rem domicilio_monto;
               saldo_total = (subtotal_products - prod_paid) + (domicilio_monto - domicilio_paid);
               st1 = st\<lparr>ws_pedidos := dfp[row_idx := row\<lparr>p_estado := ''Entregado'',
                          p_medio_pago := medio_pago, p_monto_pagado := monto,
                          p_saldo_pendiente := saldo_total\<rparr>]\<rparr>;
               st2 = st1\<lparr>ws_flujo := ws_flujo st1 @
                          [\<lparr>f_fecha = fecha, f_id_pedido = order_id,
                            f_cliente = p_nombre_cliente row, f_medio_pago = medio_pago,
                            f_ingreso_productos_recibido = prod_paid,
                            f_ingreso_domicilio_recibido = domicilio_paid,
                            f_saldo_pendiente_total = saldo_total\<rparr>]\<rparr>
           in (Inr \<lparr>prod_paid = prod_paid, domicilio_paid = domicilio_paid,
                    saldo_total = saldo_total\<rparr>, st2)))"

definition add_expense :: "store \<Rightarrow> string \<Rightarrow> string \<Rightarrow> real \<Rightarrow> store" where
  "add_expense st fecha concepto monto =
     st\<lparr>ws_gastos := ws_gastos st @ [\<lparr>g_fecha = fecha, g_concepto = concepto, g_monto = monto\<rparr>]\<rparr>"

subsection \<open>Cash flow summary\<close>

record resumen =
  total_prod_efectivo :: real
  total_prod_transfer :: real
  total_prod_other :: real
  total_prod :: real
  total_domicilios :: real
  total_gastos :: real
  saldo_real :: real

text \<open>
  The aggregation of the page \<open>Flujo & Gastos\<close>. The sum of an empty selection is 0,
  which is also what the guards \<open>if not df.empty else 0\<close> give.
\<close>

definition flujo_gastos_resumen :: "flujo list \<Rightarrow> gasto list \<Rightarrow> resumen" where
  "flujo_gastos_resumen df_flujo df_gastos =
     (let total_prod_efectivo =
            (if df_flujo \<noteq> []
             then sum_list (map f_ingreso_productos_recibido
                    (filter (\<lambda>e. f_medio_pago e = ''Efectivo'') df_flujo)) else 0);
          total_prod_transfer =
            (if df_flujo \<noteq> []
             then sum_list (map f_ingreso_productos_recibido
                    (filter (\<lambda>e. f_medio_pago e = ''Transferencia'') df_flujo)) else 0);
          total_prod_other =
            (if df_flujo \<noteq> []
             then sum_list (map f_ingreso_productos_recibido
                    (filter (\<lambda>e. \<not> (f_medio_pago e \<in> set [''Efectivo'', ''Transferencia'']))
                       df_flujo)) else 0);
          total_prod = total_prod_efectivo + total_prod_transfer + total_prod_other;
          total_domicilios =
            (if df_flujo \<noteq> [] then sum_list (map f_ingreso_domicilio_recibido df_flujo) else 0);
          total_gastos = (if df_gastos \<noteq> [] then sum_list (map g_monto df_gastos) else 0);
          saldo_real = total_prod - total_gastos
      in \<lparr>total_prod_efectivo = total_prod_efectivo, total_prod_transfer = total_prod_transfer,
          total_prod_other = total_prod_other, total_prod = total_prod,
          total_domicilios = total_domicilios, total_gastos = total_gastos,
          saldo_real = saldo_real\<rparr>)"

subsection \<open>The operations of the application\<close>

text \<open>
  The pages of the application offer five operations that write to the worksheets; each
  leaves the store that its handler leaves, also when the handler raises.
\<close>

datatype operacion =
    AgregarCliente string string string
  | CrearPedido string int "(string \<times> int) list" bool
  | ActualizarStock string nat
  | RegistrarEntrega string int string real
  | AgregarGasto string string real

fun ejecutar :: "store \<Rightarrow> operacion \<Rightarrow> store" where
  "ejecutar st (AgregarCliente n t d) = snd (form_add_cliente st n t d)"
| "ejecutar st (CrearPedido fecha cliente_id productos_cant domicilio_bool) =
     snd (create_order st fecha cliente_id productos_cant domicilio_bool)"
| "ejecutar st (ActualizarStock prod_name nueva) = snd (form_update_inventory st prod_name nueva)"
| "ejecutar st (RegistrarEntrega fecha order_id medio_pago monto_pagado) =
     snd (mark_order_delivered st fecha order_id medio_pago monto_pagado)"
| "ejecutar st (AgregarGasto fecha concepto monto) = add_expense st fecha concepto monto"

subsection \<open>The line-item detail in the words of the specification\<close>

text \<open>
  The specification words the detail as the join of the items with a positive quantity
  in catalog iteration order. This definition follows those words, not the source: it
  walks the catalog and looks each product up in the quantities.
\<close>

definition detalle_orden_catalogo :: "(string \<times> int) list \<Rightarrow> string" where
  "detalle_orden_catalogo productos_cant =
     join '' | ''
       (concat (map (\<lambda>(p, price).
                  case map_of productos_cant p of
                    Some q \<Rightarrow> if 0 < q then [detalle_item p q price] else []
                  | None \<Rightarrow> [])
                PRODUCTOS))"

subsection \<open>A small shop, for concrete runs\<close>

text \<open>
  One registered customer and the seeded inventory with five units of every catalog
  product; \<open>tienda1\<close> also holds one pending order of 20000 with the delivery fee.
\<close>

definition tienda0 :: store where
  "tienda0 =
     \<lparr>ws_clientes = [\<lparr>c_id = 1, c_nombre = ''Ana'', c_telefono = ''300'', c_direccion = ''Calle 1''\<rparr>],
      ws_pedidos = [],
      ws_inventario = map (\<lambda>(p, price). (p, 5)) PRODUCTOS,
      ws_flujo = [], ws_gastos = []\<rparr>"

definition pedido1 :: pedido where
  "pedido1 =
     \<lparr>p_id = 1, p_fecha = ''2024-01-01 10:00:00'', p_id_cliente = 1, p_nombre_cliente = ''Ana'',
      p_productos_detalle = ''Arandanos_500g x1 (@20000)'',
      p_subtotal_productos = 20000, p_monto_domicilio = 3000, p_total_pedido = 23000,
      p_estado = ''Pendiente'', p_medio_pago = [], p_monto_pagado = 0,
      p_saldo_pendiente = 20000\<rparr>"

definition tienda1 :: store where
  "tienda1 = tienda0\<lparr>ws_pedidos := [pedido1]\<rparr>"

text \<open>
  The pending order settled twice from the delivery form: 15000 first, then 8000. Nothing
  in \<open>mark_order_delivered\<close> reads the status of the order or its earlier cash-flow rows.
\<close>

definition tienda2 :: store where
  "tienda2 = snd (mark_order_delivered tienda1 ''2024-01-02 09:00:00'' 1 ''Pago parcial'' 15000)"

definition tienda3 :: store where
  "tienda3 = snd (mark_order_delivered tienda2 ''2024-01-03 09:00:00'' 1 ''Efectivo'' 8000)"

text \<open>Three cash-flow entries, one for each bucket of the summary, and one expense.\<close>

definition flujo_ejemplo :: "flujo list" where
  "flujo_ejemplo =
     [\<lparr>f_fecha = ''2024-01-02 09:00:00'', f_id_pedido = 1, f_cliente = ''Ana'',
       f_medio_pago = ''Efectivo'', f_ingreso_productos_recibido = 15000,
       f_ingreso_domicilio_recibido = 0, f_saldo_pendiente_total = 8000\<rparr>,
      \<lparr>f_fecha = ''2024-01-03 09:00:00'', f_id_pedido = 2, f_cliente = ''Ana'',
       f_medio_pago = ''Transferencia'', f_ingreso_productos_recibido = 20000,
       f_ingreso_domicilio_recibido = 3000, f_saldo_pendiente_total = 0\<rparr>,
      \<lparr>f_fecha = ''2024-01-04 09:00:00'', f_id_pedido = 3, f_cliente = ''Ana'',
       f_medio_pago = ''Pago parcial'', f_ingreso_productos_recibido = 5000,
       f_ingreso_domicilio_recibido = 3000, f_saldo_pendiente_total = 0\<rparr>]"

definition gastos_ejemplo :: "gasto list" where
  "gastos_ejemplo = [\<lparr>g_fecha = ''2024-01-05 09:00:00'', g_concepto = ''Empaques'', g_monto = 7000\<rparr>]"

section \<open>Auxiliary facts\<close>

lemma first_index_None: "first_index P xs = None \<longleftrightarrow> (\<forall>x\<in>set xs. \<not> P x)"
  by (induction xs) auto

lemma first_index_Some:
  "first_index P xs = Some i \<Longrightarrow> i < length xs \<and> P (xs ! i) \<and> (\<forall>j<i. \<not> P (xs ! j))"
proof (induction xs arbitrary: i)
  case Nil
  then show ?case by simp
next
  case (Cons x xs)
  show ?case
  proof (cases "P x")
    case True
    with Cons.prems show ?thesis by simp
  next
    case False
    with Cons.prems obtain k where k: "first_index P xs = Some k" "i = Suc k"
      by auto
    from Cons.IH [OF k(1)] False k(2) show ?thesis
      by (auto simp: less_Suc_eq_0_disj)
  qed
qed

lemma first_index_find:
  "first_index P xs = Some i \<Longrightarrow> find P xs = Some (xs ! i)"
  by (induction xs arbitrary: i) (auto split: if_splits)

lemma find_first_index:
  "find P xs = Some r \<Longrightarrow> \<exists>i. first_index P xs = Some i \<and> xs ! i = r"
  by (induction xs) (auto split: if_splits)

lemma first_index_map_of:
  "first_index (\<lambda>r. fst r = p) xs = Some i \<Longrightarrow> map_of xs p = Some (snd (xs ! i))"
  by (induction xs arbitrary: i) (auto split: if_splits)

lemma first_index_None_map_of:
  "first_index (\<lambda>r. fst r = p) xs = None \<longleftrightarrow> map_of xs p = None"
  by (simp add: first_index_None map_of_eq_None_iff) (auto simp: image_iff)

lemma map_of_rev_distinct: "distinct (map fst xs) \<Longrightarrow> map_of (rev xs) = map_of xs"
proof -
  assume d: "distinct (map fst xs)"
  then have "distinct (map fst (rev xs))"
    by (simp add: rev_map [symmetric])
  from map_of_inject_set [OF this d] show ?thesis
    by simp
qed

lemma get_inventory_map_distinct:
  "distinct (map fst ws) \<Longrightarrow> get_inventory_map ws = map_of ws"
  by (simp add: get_inventory_map_def map_of_rev_distinct)

lemma map_fst_update_stock_cell [simp]: "map fst (update_stock_cell ws i v) = map fst ws"
proof (cases "i < length ws")
  case True
  then show ?thesis
    by (simp add: update_stock_cell_def map_update list_update_same_conv)
next
  case False
  then have "length ws \<le> i"
    by simp
  then show ?thesis
    by (simp add: update_stock_cell_def list_update_beyond)
qed

lemma length_update_stock_cell [simp]: "length (update_stock_cell ws i v) = length ws"
  by (simp add: update_stock_cell_def)

lemma map_of_list_update_distinct:
  "distinct (map fst ws) \<Longrightarrow> i < length ws \<Longrightarrow>
   map_of (ws[i := (fst (ws ! i), v)]) = (map_of ws)(fst (ws ! i) \<mapsto> v)"
proof (induction ws arbitrary: i)
  case Nil
  then show ?case by simp
next
  case (Cons r ws)
  show ?case
  proof (cases i)
    case 0
    then show ?thesis by (cases r) (simp add: fun_eq_iff)
  next
    case (Suc k)
    with Cons.prems have k: "k < length ws" and d: "distinct (map fst ws)"
      and nr: "fst r \<noteq> fst (ws ! k)"
      by (auto simp: image_iff)
    from Cons.IH [OF d k] Suc nr show ?thesis
      by (cases r) (auto simp: fun_eq_iff)
  qed
qed

lemma map_of_update_stock_cell:
  "distinct (map fst ws) \<Longrightarrow> i < length ws \<Longrightarrow>
   map_of (update_stock_cell ws i v) = (map_of ws)(fst (ws ! i) \<mapsto> v)"
  by (simp add: update_stock_cell_def map_of_list_update_distinct)

lemma map_of_append_new:
  "map_of ws p = None \<Longrightarrow> map_of (ws @ [(p, v)]) = (map_of ws)(p \<mapsto> v)"
  by (auto simp: fun_eq_iff map_add_def split: option.splits)

lemma stock_nonneg_update_stock_cell:
  "\<forall>r\<in>set ws. 0 \<le> snd r \<Longrightarrow> 0 \<le> v \<Longrightarrow> \<forall>r\<in>set (update_stock_cell ws i v). 0 \<le> snd r"
  unfolding update_stock_cell_def
  by (metis insert_iff set_update_subset_insert snd_conv subsetD)

lemma update_inventory_loop_nonneg:
  "\<forall>r\<in>set ws. 0 \<le> snd r \<Longrightarrow>
   \<forall>r\<in>set (snd (update_inventory_loop inv_df ws rest)). 0 \<le> snd r"
proof (induction inv_df ws rest rule: update_inventory_loop.induct)
  case (1 inv_df ws)
  then show ?case by simp
next
  case (2 inv_df ws prod_name qty rest)
  show ?case
  proof (cases "inv_df = []")
    case True
    with "2.prems" show ?thesis by simp
  next
    case False
    show ?thesis
    proof (cases "first_index (\<lambda>r. fst r = prod_name) inv_df")
      case None
      have "\<forall>r\<in>set (ws @ [(prod_name, max 0 (- qty))]). 0 \<le> snd r"
        using "2.prems" by auto
      from "2.IH"(1) [OF False None refl this] False None show ?thesis
        by (simp add: Let_def)
    next
      case (Some idx)
      have "\<forall>r\<in>set (update_stock_cell ws idx (max 0 (snd (inv_df ! idx) - qty))). 0 \<le> snd r"
        using "2.prems" by (intro stock_nonneg_update_stock_cell) simp_all
      from "2.IH"(2) [OF False Some refl refl this] False Some show ?thesis
        by (simp add: Let_def)
    qed
  qed
qed

lemma validar_stock_None_iff:
  "validar_stock m pc = None \<longleftrightarrow>
     (\<forall>(p, q)\<in>set pc. 0 < q \<longrightarrow> (\<exists>s. m p = Some s \<and> q \<le> s))"
  by (induction m pc rule: validar_stock.induct) (auto split: option.splits)

lemma validar_stock_append:
  "validar_stock m (xs @ ys) =
     (case validar_stock m xs of None \<Rightarrow> validar_stock m ys | Some e \<Rightarrow> Some e)"
  by (induction m xs rule: validar_stock.induct) (auto split: option.splits)

lemma validar_stock_ValueError:
  "validar_stock m pc = Some e \<Longrightarrow> \<exists>msg. e = ValueError msg"
  by (induction m pc rule: validar_stock.induct) (auto split: option.splits if_splits)

lemma validar_stock_filter:
  "validar_stock m (filter (\<lambda>(p, q). 0 < q) pc) = validar_stock m pc"
  by (induction m pc rule: validar_stock.induct) (auto split: option.splits)

lemma subtotal_loop_eq:
  "subtotal_loop pc s d =
     (s + sum_list (map (\<lambda>(p, q). precio_de p * q) pc),
      d @ map (\<lambda>(p, q). detalle_item p q (precio_de p)) (filter (\<lambda>(p, q). 0 < q) pc))"
  by (induction pc s d rule: subtotal_loop.induct) (simp_all add: Let_def)

lemma update_inventory_loop_no_error:
  "inv_df \<noteq> [] \<Longrightarrow> fst (update_inventory_loop inv_df ws rest) = None"
proof (induction inv_df ws rest rule: update_inventory_loop.induct)
  case (1 inv_df ws)
  then show ?case by simp
next
  case (2 inv_df ws prod_name qty rest)
  show ?case
  proof (cases "first_index (\<lambda>r. fst r = prod_name) inv_df")
    case None
    from "2.IH"(1) [OF "2.prems" None refl] "2.prems" None show ?thesis
      by (simp add: Let_def)
  next
    case (Some idx)
    from "2.IH"(2) [OF "2.prems" Some refl refl "2.prems"] "2.prems" Some show ?thesis
      by (simp add: Let_def)
  qed
qed

lemma update_inventory_loop_empty:
  "update_inventory_loop [] ws (x # rest) = (Some (KeyError ''Producto''), ws)"
  by (cases x) simp

text \<open>The stock that the loop leaves for a product.\<close>

lemma update_inventory_loop_map_of:
  assumes "map fst inv_df = map fst ws" and "distinct (map fst ws)"
    and "distinct (map fst rest)"
    and "\<forall>p\<in>fst ` set rest. map_of inv_df p = map_of ws p"
    and "inv_df \<noteq> []"
  shows "distinct (map fst (snd (update_inventory_loop inv_df ws rest)))
       \<and> map_of (snd (update_inventory_loop inv_df ws rest)) =
          (\<lambda>p. case map_of rest p of
                  None \<Rightarrow> map_of ws p
                | Some q \<Rightarrow> Some (max 0 ((case map_of ws p of Some s \<Rightarrow> s | None \<Rightarrow> 0) - q)))"
  using assms
proof (induction inv_df ws rest rule: update_inventory_loop.induct)
  case (1 inv_df ws)
  then show ?case by simp
next
  case (2 inv_df ws prod_name qty rest)
  have ne: "inv_df \<noteq> []" by fact
  have notin: "prod_name \<notin> fst ` set rest" and drest: "distinct (map fst rest)"
    using "2.prems"(3) by simp_all
  have mrest: "map_of rest prod_name = None"
    using notin by (simp add: map_of_eq_None_iff)
  have agree: "map_of inv_df prod_name = map_of ws prod_name"
    using "2.prems"(4) by simp
  show ?case
  proof (cases "first_index (\<lambda>r. fst r = prod_name) inv_df")
    case None
    let ?ws' = "ws @ [(prod_name, max 0 (- qty))]"
    have absent: "map_of ws prod_name = None"
      using None agree by (simp add: first_index_None_map_of)
    then have pn: "prod_name \<notin> fst ` set ws"
      by (simp add: map_of_eq_None_iff)
    have d': "distinct (map fst ?ws')"
      using "2.prems"(2) pn by simp
    have ih: "distinct (map fst (snd (update_inventory_loop ?ws' ?ws' rest)))
       \<and> map_of (snd (update_inventory_loop ?ws' ?ws' rest)) =
          (\<lambda>p. case map_of rest p of
                  None \<Rightarrow> map_of ?ws' p
                | Some q \<Rightarrow> Some (max 0 ((case map_of ?ws' p of Some s \<Rightarrow> s | None \<Rightarrow> 0) - q)))"
      by (rule "2.IH"(1) [OF ne None refl refl d' drest]) simp_all
    have upd: "map_of ?ws' = (map_of ws)(prod_name \<mapsto> max 0 (- qty))"
      by (rule map_of_append_new [OF absent])
    have step: "update_inventory_loop inv_df ws ((prod_name, qty) # rest) =
                update_inventory_loop ?ws' ?ws' rest"
      using ne None by (simp add: Let_def)
    from ih have dist: "distinct (map fst (snd (update_inventory_loop ?ws' ?ws' rest)))"
      and m: "\<And>p. map_of (snd (update_inventory_loop ?ws' ?ws' rest)) p =
          (case map_of rest p of
                  None \<Rightarrow> map_of ?ws' p
                | Some q \<Rightarrow> Some (max 0 ((case map_of ?ws' p of Some s \<Rightarrow> s | None \<Rightarrow> 0) - q)))"
      by simp_all
    show ?thesis
      unfolding step
    proof (intro conjI ext)
      show "distinct (map fst (snd (update_inventory_loop ?ws' ?ws' rest)))"
        by (rule dist)
    next
      fix p
      show "map_of (snd (update_inventory_loop ?ws' ?ws' rest)) p =
            (case map_of ((prod_name, qty) # rest) p of
               None \<Rightarrow> map_of ws p
             | Some q \<Rightarrow> Some (max 0 ((case map_of ws p of Some s \<Rightarrow> s | None \<Rightarrow> 0) - q)))"
      proof (cases "p = prod_name")
        case True
        then show ?thesis
          unfolding m upd using mrest absent by simp
      next
        case False
        then show ?thesis
          unfolding m upd by (simp cong: option.case_cong)
      qed
    qed
  next
    case (Some idx)
    let ?v = "max 0 (snd (inv_df ! idx) - qty)"
    let ?ws' = "update_stock_cell ws idx ?v"
    from first_index_Some [OF Some] have idx: "idx < length inv_df" and fi: "fst (inv_df ! idx) = prod_name"
      by simp_all
    have len: "length inv_df = length ws"
      using "2.prems"(1) by (metis length_map)
    have idx': "idx < length ws" using idx len by simp
    have fw: "fst (ws ! idx) = prod_name"
      using "2.prems"(1) idx idx' fi by (metis nth_map)
    have cur: "map_of ws prod_name = Some (snd (inv_df ! idx))"
      using first_index_map_of [OF Some] agree by simp
    have upd: "map_of ?ws' = (map_of ws)(prod_name \<mapsto> ?v)"
      using map_of_update_stock_cell [OF "2.prems"(2) idx', of ?v] fw by simp
    have ag': "\<forall>p\<in>fst ` set rest. map_of inv_df p = map_of ?ws' p"
      using "2.prems"(4) notin by (auto simp: upd)
    have ih: "distinct (map fst (snd (update_inventory_loop inv_df ?ws' rest)))
       \<and> map_of (snd (update_inventory_loop inv_df ?ws' rest)) =
          (\<lambda>p. case map_of rest p of
                  None \<Rightarrow> map_of ?ws' p
                | Some q \<Rightarrow> Some (max 0 ((case map_of ?ws' p of Some s \<Rightarrow> s | None \<Rightarrow> 0) - q)))"
      by (rule "2.IH"(2) [OF ne Some refl refl _ _ drest ag' ne])
         (simp_all add: "2.prems"(1) "2.prems"(2))
    have step: "update_inventory_loop inv_df ws ((prod_name, qty) # rest) =
                update_inventory_loop inv_df ?ws' rest"
      using ne Some by (simp add: Let_def)
    from ih have dist: "distinct (map fst (snd (update_inventory_loop inv_df ?ws' rest)))"
      and m: "\<And>p. map_of (snd (update_inventory_loop inv_df ?ws' rest)) p =
          (case map_of rest p of
                  None \<Rightarrow> map_of ?ws' p
                | Some q \<Rightarrow> Some (max 0 ((case map_of ?ws' p of Some s \<Rightarrow> s | None \<Rightarrow> 0) - q)))"
      by simp_all
    show ?thesis
      unfolding step
    proof (intro conjI ext)
      show "distinct (map fst (snd (update_inventory_loop inv_df ?ws' rest)))"
        by (rule dist)
    next
      fix p
      show "map_of (snd (update_inventory_loop inv_df ?ws' rest)) p =
            (case map_of ((prod_name, qty) # rest) p of
               None \<Rightarrow> map_of ws p
             | Some q \<Rightarrow> Some (max 0 ((case map_of ws p of Some s \<Rightarrow> s | None \<Rightarrow> 0) - q)))"
      proof (cases "p = prod_name")
        case True
        then show ?thesis
          unfolding m upd using mrest cur by simp
      next
        case False
        then show ?thesis
          unfolding m upd by (simp cong: option.case_cong)
      qed
    qed
  qed
qed

lemma cliente_check:
  "(clientes = [] \<or> cid \<notin> set (map c_id clientes)) \<longleftrightarrow> cid \<notin> c_id ` set clientes"
  by auto

lemma create_order_no_cliente:
  assumes "cliente_id \<notin> c_id ` set (ws_clientes st)"
  shows "create_order st fecha cliente_id productos_cant domicilio_bool =
           (Inl (ValueError ''ID cliente no encontrado''), st)"
  using assms by (simp add: create_order_def Let_def)

lemma create_order_invalid:
  assumes "cliente_id \<in> c_id ` set (ws_clientes st)"
    and "validar_stock (get_inventory_map (ws_inventario st)) productos_cant = Some e"
  shows "create_order st fecha cliente_id productos_cant domicilio_bool = (Inl e, st)"
  using assms by (auto simp: create_order_def Let_def)

lemma create_order_valid:
  assumes "cliente_id \<in> c_id ` set (ws_clientes st)"
    and "validar_stock (get_inventory_map (ws_inventario st)) productos_cant = None"
  shows "create_order st fecha cliente_id productos_cant domicilio_bool =
           ((case fst (update_inventory_after_order (ws_inventario st) productos_cant) of
               Some e \<Rightarrow> Inl e
             | None \<Rightarrow> Inr (next_id_for_sheet (map p_id (ws_pedidos st)))),
            st\<lparr>ws_pedidos := ws_pedidos st @
                 [\<lparr>p_id = next_id_for_sheet (map p_id (ws_pedidos st)), p_fecha = fecha,
                   p_id_cliente = cliente_id,
                   p_nombre_cliente =
                     c_nombre (hd (filter (\<lambda>c. c_id c = cliente_id) (ws_clientes st))),
                   p_productos_detalle =
                     join '' | '' (map (\<lambda>(p, q). detalle_item p q (precio_de p))
                                     (filter (\<lambda>(p, q). 0 < q) productos_cant)),
                   p_subtotal_productos = sum_list (map (\<lambda>(p, q). precio_de p * q) productos_cant),
                   p_monto_domicilio = (if domicilio_bool then DOMICILIO_COST else 0),
                   p_total_pedido = sum_list (map (\<lambda>(p, q). precio_de p * q) productos_cant)
                                    + (if domicilio_bool then DOMICILIO_COST else 0),
                   p_estado = ''Pendiente'', p_medio_pago = [], p_monto_pagado = 0,
                   p_saldo_pendiente =
                     real_of_int (sum_list (map (\<lambda>(p, q). precio_de p * q) productos_cant))\<rparr>],
               ws_inventario := snd (update_inventory_after_order (ws_inventario st) productos_cant)\<rparr>)"
proof -
  have c: "\<not> (ws_clientes st = [] \<or> cliente_id \<notin> set (map c_id (ws_clientes st)))"
    using assms(1) by auto
  have j: "\<And>d. (if d \<noteq> [] then join '' | '' d else []) = join '' | '' d"
    by simp
  show ?thesis
    unfolding create_order_def Let_def subtotal_loop_eq
    by (simp only: c if_False assms(2) option.case prod.case j append_Nil add_0 store.simps
          split: prod.splits option.splits)
       (simp add: prod_eq_iff split: option.splits)
qed

lemma update_inventory_loop_error:
  "fst (update_inventory_loop inv_df ws rest) = Some e \<Longrightarrow> e = KeyError ''Producto''"
proof (cases "inv_df = []")
  case True
  assume e: "fst (update_inventory_loop inv_df ws rest) = Some e"
  show ?thesis
  proof (cases rest)
    case Nil
    with e show ?thesis by simp
  next
    case (Cons x xs)
    with e True show ?thesis by (simp add: update_inventory_loop_empty)
  qed
next
  case False
  assume "fst (update_inventory_loop inv_df ws rest) = Some e"
  with update_inventory_loop_no_error [OF False, of ws rest] show ?thesis by simp
qed

lemma create_order_Inr:
  assumes "fst (create_order st fecha cliente_id productos_cant domicilio_bool) = Inr pid"
  shows "cliente_id \<in> c_id ` set (ws_clientes st)"
    and "validar_stock (get_inventory_map (ws_inventario st)) productos_cant = None"
proof -
  show c: "cliente_id \<in> c_id ` set (ws_clientes st)"
  proof (rule ccontr)
    assume "cliente_id \<notin> c_id ` set (ws_clientes st)"
    from create_order_no_cliente [OF this, of fecha productos_cant domicilio_bool] assms
    show False by simp
  qed
  show "validar_stock (get_inventory_map (ws_inventario st)) productos_cant = None"
  proof (cases "validar_stock (get_inventory_map (ws_inventario st)) productos_cant")
    case None
    then show ?thesis .
  next
    case (Some e)
    from create_order_invalid [OF c Some, of fecha domicilio_bool] assms
    show ?thesis by simp
  qed
qed

lemma validation_fails_iff:
  "validar_stock m pc \<noteq> None \<longleftrightarrow>
     (\<exists>(p, q)\<in>set pc. 0 < q \<and> (case m p of None \<Rightarrow> True | Some s \<Rightarrow> s < q))"
  unfolding validar_stock_None_iff
  by (auto split: option.splits) force+

lemma create_order_Inr_store:
  assumes "create_order st fecha cliente_id productos_cant domicilio_bool = (Inr pid, st')"
  shows "pid = next_id_for_sheet (map p_id (ws_pedidos st))"
    and "st' = st\<lparr>ws_pedidos := ws_pedidos st @
                 [\<lparr>p_id = next_id_for_sheet (map p_id (ws_pedidos st)), p_fecha = fecha,
                   p_id_cliente = cliente_id,
                   p_nombre_cliente =
                     c_nombre (hd (filter (\<lambda>c. c_id c = cliente_id) (ws_clientes st))),
                   p_productos_detalle =
                     join '' | '' (map (\<lambda>(p, q). detalle_item p q (precio_de p))
                                     (filter (\<lambda>(p, q). 0 < q) productos_cant)),
                   p_subtotal_productos = sum_list (map (\<lambda>(p, q). precio_de p * q) productos_cant),
                   p_monto_domicilio = (if domicilio_bool then DOMICILIO_COST else 0),
                   p_total_pedido = sum_list (map (\<lambda>(p, q). precio_de p * q) productos_cant)
                                    + (if domicilio_bool then DOMICILIO_COST else 0),
                   p_estado = ''Pendiente'', p_medio_pago = [], p_monto_pagado = 0,
                   p_saldo_pendiente =
                     real_of_int (sum_list (map (\<lambda>(p, q). precio_de p * q) productos_cant))\<rparr>],
               ws_inventario := snd (update_inventory_after_order (ws_inventario st) productos_cant)\<rparr>"
proof -
  from assms have f: "fst (create_order st fecha cliente_id productos_cant domicilio_bool) = Inr pid"
    by simp
  note v = create_order_valid [OF create_order_Inr [OF f], of fecha domicilio_bool]
  from assms show "pid = next_id_for_sheet (map p_id (ws_pedidos st))"
    unfolding v by (simp split: option.splits)
  from assms show "st' = st\<lparr>ws_pedidos := ws_pedidos st @
                 [\<lparr>p_id = next_id_for_sheet (map p_id (ws_pedidos st)), p_fecha = fecha,
                   p_id_cliente = cliente_id,
                   p_nombre_cliente =
                     c_nombre (hd (filter (\<lambda>c. c_id c = cliente_id) (ws_clientes st))),
                   p_productos_detalle =
                     join '' | '' (map (\<lambda>(p, q). detalle_item p q (precio_de p))
                                     (filter (\<lambda>(p, q). 0 < q) productos_cant)),
                   p_subtotal_productos = sum_list (map (\<lambda>(p, q). precio_de p * q) productos_cant),
                   p_monto_domicilio = (if domicilio_bool then DOMICILIO_COST else 0),
                   p_total_pedido = sum_list (map (\<lambda>(p, q). precio_de p * q) productos_cant)
                                    + (if domicilio_bool then DOMICILIO_COST else 0),
                   p_estado = ''Pendiente'', p_medio_pago = [], p_monto_pagado = 0,
                   p_saldo_pendiente =
                     real_of_int (sum_list (map (\<lambda>(p, q). precio_de p * q) productos_cant))\<rparr>],
               ws_inventario := snd (update_inventory_after_order (ws_inventario st) productos_cant)\<rparr>"
    unfolding v by (simp only: prod.inject)
qed

lemma str_nat_small: "n < 10 \<Longrightarrow> str_nat n = [digit_char n]"
  by (simp add: str_nat.simps)

lemma str_nat_large: "10 \<le> n \<Longrightarrow> str_nat n = str_nat (n div 10) @ [digit_char (n mod 10)]"
  by (subst str_nat.simps) simp

lemmas str_int_eval = str_int_def str_nat_small str_nat_large digit_char_def

lemma create_order_fst:
  assumes "cliente_id \<in> c_id ` set (ws_clientes st)"
    and "validar_stock (get_inventory_map (ws_inventario st)) productos_cant = None"
    and "ws_inventario st \<noteq> []"
  shows "fst (create_order st fecha cliente_id productos_cant domicilio_bool) =
           Inr (next_id_for_sheet (map p_id (ws_pedidos st)))"
  unfolding create_order_valid [OF assms(1,2)]
  using update_inventory_loop_no_error [OF assms(3), of "ws_inventario st" productos_cant]
  by (simp add: update_inventory_after_order_def)

lemma tienda0_facts:
  "1 \<in> c_id ` set (ws_clientes tienda0)" "ws_inventario tienda0 \<noteq> []"
  "ws_pedidos tienda0 = []" "distinct (map fst (ws_inventario tienda0))"
  "\<forall>r\<in>set (ws_inventario tienda0). 0 \<le> snd r"
  by (simp_all add: tienda0_def PRODUCTOS_def)

lemma get_inventory_map_tienda0:
  "get_inventory_map (ws_inventario tienda0) = map_of (map (\<lambda>(p, price). (p, 5)) PRODUCTOS)"
  using get_inventory_map_distinct [OF tienda0_facts(4)] by (simp add: tienda0_def)

lemma map_of_map_key:
  "map_of (map (\<lambda>(p, price). (p, g p)) cat) p = (if p \<in> fst ` set cat then Some (g p) else None)"
  by (induction cat) (auto simp: image_iff)

lemma detalle_catalogo_aux:
  assumes "distinct (map fst cat)" and "set xs \<subseteq> set cat" and "\<And>p price. (p, price) \<in> set cat \<Longrightarrow> pr p = price"
  shows "map (\<lambda>(p, q). detalle_item p q (pr p))
             (filter (\<lambda>(p, q). 0 < q) (map (\<lambda>(p, price). (p, int (qf p))) xs)) =
         concat (map (\<lambda>(p, price).
                  case map_of (map (\<lambda>(p, price). (p, int (qf p))) cat) p of
                    Some q \<Rightarrow> if 0 < q then [detalle_item p q price] else []
                  | None \<Rightarrow> [])
                xs)"
  using assms(2)
proof (induction xs)
  case Nil
  then show ?case by simp
next
  case (Cons x xs)
  obtain p price where x: "x = (p, price)" by (cases x)
  with Cons.prems have m: "(p, price) \<in> set cat" and sub: "set xs \<subseteq> set cat"
    by simp_all
  from m have k: "p \<in> fst ` set cat" by (force simp: image_iff)
  from Cons.IH [OF sub] assms(3) [OF m] k show ?case
    by (simp add: x map_of_map_key)
qed

lemma precio_de_catalogo: "(p, price) \<in> set PRODUCTOS \<Longrightarrow> precio_de p = price"
proof -
  assume m: "(p, price) \<in> set PRODUCTOS"
  have "distinct (map fst PRODUCTOS)"
    by (simp add: PRODUCTOS_def)
  from map_of_is_SomeI [OF this m] show ?thesis
    by (simp add: precio_de_def)
qed

lemma detalle_form_new_order:
  "map (\<lambda>(p, q). detalle_item p q (precio_de p))
       (filter (\<lambda>(p, q). 0 < q) (form_new_order_cant qf)) =
   concat (map (\<lambda>(p, price).
                  case map_of (form_new_order_cant qf) p of
                    Some q \<Rightarrow> if 0 < q then [detalle_item p q price] else []
                  | None \<Rightarrow> [])
                PRODUCTOS)"
  unfolding form_new_order_cant_def
  by (rule detalle_catalogo_aux) (simp_all add: PRODUCTOS_def precio_de_catalogo [unfolded PRODUCTOS_def])

lemma validar_stock_first_fail:
  assumes "\<forall>(p', q')\<in>set pre. 0 < q' \<longrightarrow> (\<exists>s'. m p' = Some s' \<and> q' \<le> s')"
    and "0 < q"
  shows "m p = None \<Longrightarrow>
           validar_stock m (pre @ (p, q) # post) =
             Some (ValueError (''Producto no existe en inventario: '' @ p))"
    and "m p = Some s \<Longrightarrow> s < q \<Longrightarrow>
           validar_stock m (pre @ (p, q) # post) =
             Some (ValueError (''Stock insuficiente para '' @ p @ '': disponible ''
                                @ str_int s @ '', pedido '' @ str_int q))"
proof -
  from assms(1) have pre: "validar_stock m pre = None"
    by (simp only: validar_stock_None_iff)
  show "m p = None \<Longrightarrow>
           validar_stock m (pre @ (p, q) # post) =
             Some (ValueError (''Producto no existe en inventario: '' @ p))"
    using assms(2) by (simp add: validar_stock_append pre)
  show "m p = Some s \<Longrightarrow> s < q \<Longrightarrow>
           validar_stock m (pre @ (p, q) # post) =
             Some (ValueError (''Stock insuficiente para '' @ p @ '': disponible ''
                                @ str_int s @ '', pedido '' @ str_int q))"
    using assms(2) by (simp add: validar_stock_append pre)
qed

lemma validar_stock_Some_split:
  "validar_stock m pc = Some e \<Longrightarrow>
   \<exists>pre p q post. pc = pre @ (p, q) # post
     \<and> (\<forall>(p', q')\<in>set pre. 0 < q' \<longrightarrow> (\<exists>s'. m p' = Some s' \<and> q' \<le> s'))
     \<and> 0 < q
     \<and> ((m p = None \<and> e = ValueError (''Producto no existe en inventario: '' @ p))
        \<or> (\<exists>s. m p = Some s \<and> s < q
              \<and> e = ValueError (''Stock insuficiente para '' @ p @ '': disponible ''
                                  @ str_int s @ '', pedido '' @ str_int q)))"
proof (induction m pc rule: validar_stock.induct)
  case (1 inv_map)
  then show ?case by simp
next
  case (2 inv_map p q rest)
  let ?here = "0 < q \<and> (case inv_map p of None \<Rightarrow> True | Some s \<Rightarrow> s < q)"
  show ?case
  proof (cases ?here)
    case True
    with "2.prems" have
      "(inv_map p = None \<and> e = ValueError (''Producto no existe en inventario: '' @ p))
        \<or> (\<exists>s. inv_map p = Some s \<and> s < q
              \<and> e = ValueError (''Stock insuficiente para '' @ p @ '': disponible ''
                                  @ str_int s @ '', pedido '' @ str_int q))"
      by (auto split: option.splits)
    with True show ?thesis
      by (intro exI [of _ "[]"] exI [of _ p] exI [of _ q] exI [of _ rest]) simp
  next
    case False
    then have ok: "0 < q \<longrightarrow> (\<exists>s. inv_map p = Some s \<and> q \<le> s)"
      by (auto split: option.splits)
    from False "2.prems" have r: "validar_stock inv_map rest = Some e"
      by (auto split: option.splits if_splits)
    have "\<exists>pre p' q' post. rest = pre @ (p', q') # post
     \<and> (\<forall>(p', q')\<in>set pre. 0 < q' \<longrightarrow> (\<exists>s'. inv_map p' = Some s' \<and> q' \<le> s'))
     \<and> 0 < q'
     \<and> ((inv_map p' = None \<and> e = ValueError (''Producto no existe en inventario: '' @ p'))
        \<or> (\<exists>s. inv_map p' = Some s \<and> s < q'
              \<and> e = ValueError (''Stock insuficiente para '' @ p' @ '': disponible ''
                                  @ str_int s @ '', pedido '' @ str_int q')))"
    proof (cases "q \<le> 0")
      case True
      from "2.IH"(1) [OF True r] show ?thesis .
    next
      case nq: False
      with ok obtain s where s: "inv_map p = Some s" "q \<le> s" by auto
      then have "\<not> s < q" by simp
      from "2.IH"(2) [OF nq s(1) this r] show ?thesis .
    qed
    then obtain pre p' q' post where
      a: "rest = pre @ (p', q') # post"
      and b: "\<forall>(p', q')\<in>set pre. 0 < q' \<longrightarrow> (\<exists>s'. inv_map p' = Some s' \<and> q' \<le> s')"
      and c: "0 < q'"
      and d: "(inv_map p' = None \<and> e = ValueError (''Producto no existe en inventario: '' @ p'))
        \<or> (\<exists>s. inv_map p' = Some s \<and> s < q'
              \<and> e = ValueError (''Stock insuficiente para '' @ p' @ '': disponible ''
                                  @ str_int s @ '', pedido '' @ str_int q'))"
      by (elim exE conjE)
    from a have a': "(p, q) # rest = ((p, q) # pre) @ (p', q') # post" by simp
    from b ok have b': "\<forall>(p', q')\<in>set ((p, q) # pre). 0 < q' \<longrightarrow> (\<exists>s'. inv_map p' = Some s' \<and> q' \<le> s')"
      by simp
    from a' b' c d show ?thesis
      by (intro exI [of _ "(p, q) # pre"] exI [of _ p'] exI [of _ q'] exI [of _ post] conjI)
  qed
qed

lemma create_order_inventario:
  "ws_inventario (snd (create_order st fecha cliente_id productos_cant domicilio_bool)) =
     ws_inventario st
   \<or> ws_inventario (snd (create_order st fecha cliente_id productos_cant domicilio_bool)) =
     snd (update_inventory_loop (ws_inventario st) (ws_inventario st) productos_cant)"
proof (cases "cliente_id \<in> c_id ` set (ws_clientes st)")
  case False
  from create_order_no_cliente [OF False, of fecha productos_cant domicilio_bool]
  show ?thesis by simp
next
  case True
  show ?thesis
  proof (cases "validar_stock (get_inventory_map (ws_inventario st)) productos_cant")
    case None
    show ?thesis
      unfolding create_order_valid [OF True None]
      by (simp add: update_inventory_after_order_def)
  next
    case (Some e)
    from create_order_invalid [OF True Some, of fecha domicilio_bool]
    show ?thesis by simp
  qed
qed

lemma mark_order_delivered_inventario:
  "ws_inventario (snd (mark_order_delivered st fecha order_id medio_pago monto)) = ws_inventario st"
  unfolding mark_order_delivered_def Let_def
  by (cases "first_index (\<lambda>r. p_id r = order_id) (ws_pedidos st)")
     simp_all

lemma form_add_cliente_inventario:
  "ws_inventario (snd (form_add_cliente st n t d)) = ws_inventario st"
  by (simp add: form_add_cliente_def add_cliente_def Let_def)

lemma form_update_inventory_nonneg:
  assumes "\<forall>r\<in>set (ws_inventario st). 0 \<le> snd r"
  shows "\<forall>r\<in>set (ws_inventario (snd (form_update_inventory st prod_name nueva))). 0 \<le> snd r"
proof (cases "first_index (\<lambda>r. fst r = prod_name) (ws_inventario st)")
  case None
  with assms show ?thesis
    by (simp add: form_update_inventory_def)
next
  case (Some idx)
  from first_index_Some [OF Some] have "idx < length (ws_inventario st)" by simp
  with assms have "0 \<le> snd (ws_inventario st ! idx)" by simp
  then have "0 \<le> snd (ws_inventario st ! idx) + int nueva" by simp
  from stock_nonneg_update_stock_cell [OF assms this, of idx] Some show ?thesis
    by (simp add: form_update_inventory_def Let_def)
qed

lemma ejecutar_stock_nonneg:
  assumes "\<forall>r\<in>set (ws_inventario st). 0 \<le> snd r"
  shows "\<forall>r\<in>set (ws_inventario (ejecutar st op)). 0 \<le> snd r"
proof (cases op)
  case (AgregarCliente n t d)
  with assms show ?thesis
    by (simp add: form_add_cliente_inventario)
next
  case (CrearPedido fecha cliente_id productos_cant domicilio_bool)
  from create_order_inventario [of st fecha cliente_id productos_cant domicilio_bool]
    update_inventory_loop_nonneg [OF assms, of "ws_inventario st" productos_cant] assms
  show ?thesis
    unfolding CrearPedido ejecutar.simps by (elim disjE) simp_all
next
  case (ActualizarStock prod_name nueva)
  with form_update_inventory_nonneg [OF assms] show ?thesis by simp
next
  case (RegistrarEntrega fecha order_id medio_pago monto)
  with assms show ?thesis
    by (simp only: ejecutar.simps mark_order_delivered_inventario)
next
  case (AgregarGasto fecha concepto monto)
  with assms show ?thesis
    by (simp add: add_expense_def)
qed

lemma get_inventory_map_in_set:
  "get_inventory_map ws p = Some s \<Longrightarrow> (p, s) \<in> set ws"
  unfolding get_inventory_map_def by (drule map_of_SomeD) simp

lemma create_order_stock_after:
  assumes d: "distinct (map fst (ws_inventario st))" and dp: "distinct (map fst productos_cant)"
    and ok: "create_order st fecha cliente_id productos_cant domicilio_bool = (Inr pid, st')"
    and mem: "(p, q) \<in> set productos_cant"
    and s: "get_inventory_map (ws_inventario st) p = Some s"
  shows "get_inventory_map (ws_inventario st') p = Some (max 0 (s - q))"
proof -
  let ?inv = "ws_inventario st"
  let ?res = "snd (update_inventory_loop ?inv ?inv productos_cant)"
  from get_inventory_map_in_set [OF s] have ne: "?inv \<noteq> []" by auto
  have inv': "ws_inventario st' = ?res"
    unfolding create_order_Inr_store(2) [OF ok] by (simp add: update_inventory_after_order_def)
  from update_inventory_loop_map_of [OF refl d dp _ ne]
  have dist: "distinct (map fst ?res)"
    and m: "map_of ?res =
          (\<lambda>p. case map_of productos_cant p of
                  None \<Rightarrow> map_of ?inv p
                | Some q \<Rightarrow> Some (max 0 ((case map_of ?inv p of Some s \<Rightarrow> s | None \<Rightarrow> 0) - q)))"
    by simp_all
  from map_of_is_SomeI [OF dp mem] have pq: "map_of productos_cant p = Some q" .
  from s have ps: "map_of ?inv p = Some s"
    by (simp add: get_inventory_map_distinct [OF d])
  show ?thesis
    unfolding inv' get_inventory_map_distinct [OF dist] m by (simp add: pq ps)
qed

lemma mark_order_delivered_found:
  assumes "first_index (\<lambda>r. p_id r = order_id) (ws_pedidos st) = Some i"
  shows "fst (mark_order_delivered st fecha order_id medio_pago monto) =
           Inr \<lparr>prod_paid = min monto (real_of_int (p_subtotal_productos (ws_pedidos st ! i))),
                domicilio_paid =
                  min (max 0 (monto - min monto (real_of_int (p_subtotal_productos (ws_pedidos st ! i)))))
                      (real_of_int (p_monto_domicilio (ws_pedidos st ! i))),
                saldo_total =
                  (real_of_int (p_subtotal_productos (ws_pedidos st ! i))
                     - min monto (real_of_int (p_subtotal_productos (ws_pedidos st ! i))))
                  + (real_of_int (p_monto_domicilio (ws_pedidos st ! i))
                     - min (max 0 (monto - min monto (real_of_int (p_subtotal_productos (ws_pedidos st ! i)))))
                           (real_of_int (p_monto_domicilio (ws_pedidos st ! i))))\<rparr>"
  unfolding mark_order_delivered_def Let_def assms
  by (simp only: option.case fst_conv)

lemma precio_de_nonneg: "0 \<le> precio_de p"
proof (cases "map_of PRODUCTOS p")
  case None
  then show ?thesis by (simp add: precio_de_def)
next
  case (Some v)
  from map_of_SomeD [OF Some] have "0 \<le> v"
    by (auto simp: PRODUCTOS_def)
  with Some show ?thesis by (simp add: precio_de_def)
qed

lemma subtotal_nonneg:
  assumes "\<forall>(p, q)\<in>set pc. 0 \<le> q"
  shows "0 \<le> sum_list (map (\<lambda>(p, q). precio_de p * q) pc)"
proof (rule sum_list_nonneg)
  fix x assume "x \<in> set (map (\<lambda>(p, q). precio_de p * q) pc)"
  then obtain p q where "(p, q) \<in> set pc" and x: "x = precio_de p * q" by auto
  with assms have "0 \<le> q" by auto
  with precio_de_nonneg [of p] x show "0 \<le> x" by simp
qed

lemma find_list_update:
  "first_index P xs = Some i \<Longrightarrow> P y \<Longrightarrow> find P (xs[i := y]) = Some y"
proof (induction xs arbitrary: i)
  case Nil
  then show ?case by simp
next
  case (Cons x xs)
  show ?case
  proof (cases "P x")
    case True
    with Cons.prems show ?thesis by simp
  next
    case False
    with Cons.prems obtain k where k: "first_index P xs = Some k" "i = Suc k" by auto
    from Cons.IH [OF k(1) Cons.prems(2)] False k(2) show ?thesis by simp
  qed
qed

lemma mark_order_delivered_pedidos:
  assumes "first_index (\<lambda>r. p_id r = order_id) (ws_pedidos st) = Some i"
  shows "ws_pedidos (snd (mark_order_delivered st fecha order_id medio_pago monto)) =
           (ws_pedidos st)[i := (ws_pedidos st ! i)\<lparr>p_estado := ''Entregado'',
              p_medio_pago := medio_pago, p_monto_pagado := monto,
              p_saldo_pendiente :=
                saldo_total (projr (fst (mark_order_delivered st fecha order_id medio_pago monto)))\<rparr>]"
  unfolding mark_order_delivered_found [OF assms]
  unfolding mark_order_delivered_def Let_def assms
  by simp

lemma allocation_bounds:
  fixes A S F :: real
  shows "0 \<le> (S - min A S) + (F - min (max 0 (A - min A S)) F)"
    and "(S - min A S) + (F - min (max 0 (A - min A S)) F) =
         S + F - (min A S + min (max 0 (A - min A S)) F)"
  by (simp_all add: min_def max_def)

lemma max_list_Max: "xs \<noteq> [] \<Longrightarrow> max_list xs = Max (set xs)"
  by (induction xs rule: max_list.induct) simp_all

lemma next_id_for_sheet_fresh: "next_id_for_sheet xs \<notin> set xs"
proof (cases "xs = []")
  case True
  then show ?thesis by simp
next
  case False
  show ?thesis
  proof
    assume "next_id_for_sheet xs \<in> set xs"
    then have "next_id_for_sheet xs \<le> Max (set xs)" by simp
    with False show False
      by (simp add: next_id_for_sheet_def max_list_Max)
  qed
qed

lemma sum_list_three_buckets:
  fixes f :: "'a \<Rightarrow> real"
  assumes "\<And>x. \<not> (P x \<and> Q x)"
  shows "sum_list (map f (filter P xs)) + sum_list (map f (filter Q xs))
           + sum_list (map f (filter (\<lambda>x. \<not> (P x \<or> Q x)) xs)) = sum_list (map f xs)"
  using assms by (induction xs) auto

lemma filter_map_domicilio:
  "filter (\<lambda>e. P (f_medio_pago e)) (map (\<lambda>e. e\<lparr>f_ingreso_domicilio_recibido := g e\<rparr>) xs) =
   map (\<lambda>e. e\<lparr>f_ingreso_domicilio_recibido := g e\<rparr>) (filter (\<lambda>e. P (f_medio_pago e)) xs)"
  by (induction xs) simp_all

lemma resumen_fields:
  "total_prod_efectivo (flujo_gastos_resumen df_flujo df_gastos) =
     sum_list (map f_ingreso_productos_recibido
                 (filter (\<lambda>e. f_medio_pago e = ''Efectivo'') df_flujo))"
  "total_prod_transfer (flujo_gastos_resumen df_flujo df_gastos) =
     sum_list (map f_ingreso_productos_recibido
                 (filter (\<lambda>e. f_medio_pago e = ''Transferencia'') df_flujo))"
  "total_prod_other (flujo_gastos_resumen df_flujo df_gastos) =
     sum_list (map f_ingreso_productos_recibido
                 (filter (\<lambda>e. \<not> (f_medio_pago e = ''Efectivo'' \<or> f_medio_pago e = ''Transferencia''))
                    df_flujo))"
  "total_prod (flujo_gastos_resumen df_flujo df_gastos) =
     total_prod_efectivo (flujo_gastos_resumen df_flujo df_gastos)
     + total_prod_transfer (flujo_gastos_resumen df_flujo df_gastos)
     + total_prod_other (flujo_gastos_resumen df_flujo df_gastos)"
  "total_domicilios (flujo_gastos_resumen df_flujo df_gastos) =
     sum_list (map f_ingreso_domicilio_recibido df_flujo)"
  "total_gastos (flujo_gastos_resumen df_flujo df_gastos) = sum_list (map g_monto df_gastos)"
  "saldo_real (flujo_gastos_resumen df_flujo df_gastos) =
     total_prod (flujo_gastos_resumen df_flujo df_gastos)
     - total_gastos (flujo_gastos_resumen df_flujo df_gastos)"
  by (simp_all add: flujo_gastos_resumen_def Let_def)

lemma total_prod_all:
  "total_prod (flujo_gastos_resumen df_flujo df_gastos) =
     sum_list (map f_ingreso_productos_recibido df_flujo)"
proof -
  have "\<And>e. \<not> (f_medio_pago e = ''Efectivo'' \<and> f_medio_pago e = ''Transferencia'')"
    by auto
  from sum_list_three_buckets [of "\<lambda>e. f_medio_pago e = ''Efectivo''"
         "\<lambda>e. f_medio_pago e = ''Transferencia''" f_ingreso_productos_recibido df_flujo, OF this]
  show ?thesis
    unfolding resumen_fields(4) resumen_fields(1,2,3) .
qed

lemma total_prod_domicilio_independent:
  "total_prod (flujo_gastos_resumen
                 (map (\<lambda>e. e\<lparr>f_ingreso_domicilio_recibido := g e\<rparr>) df_flujo) df_gastos) =
   total_prod (flujo_gastos_resumen df_flujo df_gastos)"
  unfolding total_prod_all by (simp add: o_def)

lemma mark_order_delivered_flujo:
  assumes "first_index (\<lambda>r. p_id r = order_id) (ws_pedidos st) = Some i"
  shows "ws_flujo (snd (mark_order_delivered st fecha order_id medio_pago monto)) =
           ws_flujo st @
             [\<lparr>f_fecha = fecha, f_id_pedido = order_id,
               f_cliente = p_nombre_cliente (ws_pedidos st ! i), f_medio_pago = medio_pago,
               f_ingreso_productos_recibido =
                 prod_paid (projr (fst (mark_order_delivered st fecha order_id medio_pago monto))),
               f_ingreso_domicilio_recibido =
                 domicilio_paid (projr (fst (mark_order_delivered st fecha order_id medio_pago monto))),
               f_saldo_pendiente_total =
                 saldo_total (projr (fst (mark_order_delivered st fecha order_id medio_pago monto)))\<rparr>]"
  unfolding mark_order_delivered_found [OF assms]
  unfolding mark_order_delivered_def Let_def assms
  by simp

lemma tienda2_sheets:
  "ws_pedidos tienda2 =
     [pedido1\<lparr>p_estado := ''Entregado'', p_medio_pago := ''Pago parcial'',
              p_monto_pagado := 15000, p_saldo_pendiente := 8000\<rparr>]"
  "ws_flujo tienda2 =
     [\<lparr>f_fecha = ''2024-01-02 09:00:00'', f_id_pedido = 1, f_cliente = ''Ana'',
       f_medio_pago = ''Pago parcial'', f_ingreso_productos_recibido = 15000,
       f_ingreso_domicilio_recibido = 0, f_saldo_pendiente_total = 8000\<rparr>]"
  "fst (mark_order_delivered tienda1 ''2024-01-02 09:00:00'' 1 ''Pago parcial'' 15000) =
     Inr \<lparr>prod_paid = 15000, domicilio_paid = 0, saldo_total = 8000\<rparr>"
proof -
  have i: "first_index (\<lambda>r. p_id r = 1) (ws_pedidos tienda1) = Some 0"
    by (simp add: tienda1_def pedido1_def)
  note f = mark_order_delivered_found [OF i, of "''2024-01-02 09:00:00''" "''Pago parcial''" 15000]
  show "ws_pedidos tienda2 =
     [pedido1\<lparr>p_estado := ''Entregado'', p_medio_pago := ''Pago parcial'',
              p_monto_pagado := 15000, p_saldo_pendiente := 8000\<rparr>]"
    unfolding tienda2_def mark_order_delivered_pedidos [OF i] f
    by (simp add: tienda1_def pedido1_def)
  show "ws_flujo tienda2 =
     [\<lparr>f_fecha = ''2024-01-02 09:00:00'', f_id_pedido = 1, f_cliente = ''Ana'',
       f_medio_pago = ''Pago parcial'', f_ingreso_productos_recibido = 15000,
       f_ingreso_domicilio_recibido = 0, f_saldo_pendiente_total = 8000\<rparr>]"
    unfolding tienda2_def mark_order_delivered_flujo [OF i] f
    by (simp add: tienda1_def tienda0_def pedido1_def)
  show "fst (mark_order_delivered tienda1 ''2024-01-02 09:00:00'' 1 ''Pago parcial'' 15000) =
     Inr \<lparr>prod_paid = 15000, domicilio_paid = 0, saldo_total = 8000\<rparr>"
    unfolding f by (simp add: tienda1_def pedido1_def)
qed

lemma tienda3_sheets:
  "ws_pedidos tienda3 =
     [pedido1\<lparr>p_estado := ''Entregado'', p_medio_pago := ''Efectivo'',
              p_monto_pagado := 8000, p_saldo_pendiente := 15000\<rparr>]"
  "ws_flujo tienda3 =
     [\<lparr>f_fecha = ''2024-01-02 09:00:00'', f_id_pedido = 1, f_cliente = ''Ana'',
       f_medio_pago = ''Pago parcial'', f_ingreso_productos_recibido = 15000,
       f_ingreso_domicilio_recibido = 0, f_saldo_pendiente_total = 8000\<rparr>,
      \<lparr>f_fecha = ''2024-01-03 09:00:00'', f_id_pedido = 1, f_cliente = ''Ana'',
       f_medio_pago = ''Efectivo'', f_ingreso_productos_recibido = 8000,
       f_ingreso_domicilio_recibido = 0, f_saldo_pendiente_total = 15000\<rparr>]"
  "fst (mark_order_delivered tienda2 ''2024-01-03 09:00:00'' 1 ''Efectivo'' 8000) =
     Inr \<lparr>prod_paid = 8000, domicilio_paid = 0, saldo_total = 15000\<rparr>"
proof -
  have i: "first_index (\<lambda>r. p_id r = 1) (ws_pedidos tienda2) = Some 0"
    by (simp add: tienda2_sheets(1) pedido1_def)
  note f = mark_order_delivered_found [OF i, of "''2024-01-03 09:00:00''" "''Efectivo''" 8000]
  show "ws_pedidos tienda3 =
     [pedido1\<lparr>p_estado := ''Entregado'', p_medio_pago := ''Efectivo'',
              p_monto_pagado := 8000, p_saldo_pendiente := 15000\<rparr>]"
    unfolding tienda3_def mark_order_delivered_pedidos [OF i] f
    by (simp add: tienda2_sheets(1) pedido1_def)
  show "ws_flujo tienda3 =
     [\<lparr>f_fecha = ''2024-01-02 09:00:00'', f_id_pedido = 1, f_cliente = ''Ana'',
       f_medio_pago = ''Pago parcial'', f_ingreso_productos_recibido = 15000,
       f_ingreso_domicilio_recibido = 0, f_saldo_pendiente_total = 8000\<rparr>,
      \<lparr>f_fecha = ''2024-01-03 09:00:00'', f_id_pedido = 1, f_cliente = ''Ana'',
       f_medio_pago = ''Efectivo'', f_ingreso_productos_recibido = 8000,
       f_ingreso_domicilio_recibido = 0, f_saldo_pendiente_total = 15000\<rparr>]"
    unfolding tienda3_def mark_order_delivered_flujo [OF i] f
    by (simp add: tienda2_sheets(1,2) pedido1_def)
  show "fst (mark_order_delivered tienda2 ''2024-01-03 09:00:00'' 1 ''Efectivo'' 8000) =
     Inr \<lparr>prod_paid = 8000, domicilio_paid = 0, saldo_total = 15000\<rparr>"
    unfolding f by (simp add: tienda2_sheets(1) pedido1_def)
qed

section \<open>Settlement of an order\<close>

text \<open>
  Claim C1. For an order that exists, with product subtotal \<open>S\<close> and delivery fee
  \<open>F\<close>, and a payment \<open>A \<ge> 0\<close>, \<open>mark_order_delivered\<close> raises nothing and
  returns \<open>prod_paid = min A S\<close>, \<open>domicilio_paid = min (max 0 (A - prod_paid)) F\<close> and
  \<open>saldo_total = (S - prod_paid) + (F - domicilio_paid)\<close>. When the fee is not negative
  (it is 0 or the fixed fee) and \<open>A \<ge> S + F\<close>, the remaining balance is 0: an
  overpayment is absorbed. The witness is the run \<open>S = 20000\<close>, \<open>F = 3000\<close>,
  \<open>A = 23000\<close>, which gives \<open>(20000, 3000, 0)\<close>.
\<close>

theorem settle_order_allocation:
  assumes "find (\<lambda>r. p_id r = order_id) (ws_pedidos st) = Some row"
    and "S = real_of_int (p_subtotal_productos row)"
    and "F = real_of_int (p_monto_domicilio row)"
    and "0 \<le> A"
  shows "\<exists>r. fst (mark_order_delivered st fecha order_id medio_pago A) = Inr r
           \<and> prod_paid r = min A S
           \<and> domicilio_paid r = min (max 0 (A - prod_paid r)) F
           \<and> saldo_total r = (S - prod_paid r) + (F - domicilio_paid r)
           \<and> (0 \<le> F \<and> S + F \<le> A \<longrightarrow> saldo_total r = 0)"
proof -
  from find_first_index [OF assms(1)]
  obtain i where i: "first_index (\<lambda>r. p_id r = order_id) (ws_pedidos st) = Some i"
    and row: "ws_pedidos st ! i = row"
    by (elim exE conjE)
  let ?pp = "min A S" and ?dp = "min (max 0 (A - min A S)) F"
  let ?r = "\<lparr>prod_paid = ?pp, domicilio_paid = ?dp, saldo_total = (S - ?pp) + (F - ?dp)\<rparr>"
  have r: "fst (mark_order_delivered st fecha order_id medio_pago A) = Inr ?r"
    unfolding mark_order_delivered_found [OF i] row assms(2,3) ..
  have over: "0 \<le> F \<and> S + F \<le> A \<longrightarrow> (S - ?pp) + (F - ?dp) = 0"
    by (simp add: min_def max_def)
  have sel: "prod_paid ?r = ?pp" "domicilio_paid ?r = ?dp" "saldo_total ?r = (S - ?pp) + (F - ?dp)"
    by (simp_all only: pago.simps)
  have "fst (mark_order_delivered st fecha order_id medio_pago A) = Inr ?r
           \<and> prod_paid ?r = min A S
           \<and> domicilio_paid ?r = min (max 0 (A - prod_paid ?r)) F
           \<and> saldo_total ?r = (S - prod_paid ?r) + (F - domicilio_paid ?r)
           \<and> (0 \<le> F \<and> S + F \<le> A \<longrightarrow> saldo_total ?r = 0)"
    unfolding sel using r over by (intro conjI refl)
  then show ?thesis ..
qed

theorem settle_order_allocation_witness:
  "find (\<lambda>r. p_id r = 1) (ws_pedidos tienda1) = Some pedido1 \<and> (0::real) \<le> 23000
   \<and> (\<exists>r. fst (mark_order_delivered tienda1 ''2024-01-02 09:00:00'' 1 ''Efectivo'' 23000) = Inr r
          \<and> prod_paid r = 20000 \<and> domicilio_paid r = 3000 \<and> saldo_total r = 0)"
proof -
  have f: "find (\<lambda>r. p_id r = 1) (ws_pedidos tienda1) = Some pedido1"
    by (simp add: tienda1_def pedido1_def)
  have S: "(20000::real) = real_of_int (p_subtotal_productos pedido1)"
    and F: "(3000::real) = real_of_int (p_monto_domicilio pedido1)"
    by (simp_all add: pedido1_def)
  have A: "(0::real) \<le> 23000"
    by simp
  from settle_order_allocation [OF f S F A, of "''2024-01-02 09:00:00''" "''Efectivo''"]
  obtain r where r: "fst (mark_order_delivered tienda1 ''2024-01-02 09:00:00'' 1 ''Efectivo'' 23000) = Inr r"
    and pp: "prod_paid r = min 23000 20000"
    and dp: "domicilio_paid r = min (max 0 (23000 - prod_paid r)) 3000"
    and sa: "saldo_total r = (20000 - prod_paid r) + (3000 - domicilio_paid r)"
    by (elim exE conjE)
  from pp have pp': "prod_paid r = 20000" by simp
  from dp pp' have dp': "domicilio_paid r = 3000" by simp
  from sa pp' dp' have sa': "saldo_total r = 0" by simp
  from f A r pp' dp' sa' show ?thesis by blast
qed

section \<open>Placing an order: validation before any write\<close>

text \<open>
  Claim C2. \<open>create_order\<close> is all or nothing. Whenever a validation fails (the
  customer is not registered, or some line with a positive quantity names a product that
  the inventory does not hold or asks for more than its stock), the call raises a
  \<open>ValueError\<close> and the store is exactly the one it was given: no order row is appended
  and no stock cell is changed. Conversely, a \<open>ValueError\<close> of \<open>create_order\<close> is
  always such a failed validation, raised before the first write.
\<close>

theorem create_order_all_or_nothing:
  "((cliente_id \<notin> c_id ` set (ws_clientes st)
      \<or> (\<exists>(p, q)\<in>set productos_cant.
            0 < q \<and> (case get_inventory_map (ws_inventario st) p of
                        None \<Rightarrow> True | Some s \<Rightarrow> s < q)))
     \<longrightarrow> (\<exists>msg. create_order st fecha cliente_id productos_cant domicilio_bool =
                  (Inl (ValueError msg), st)))
   \<and> (fst (create_order st fecha cliente_id productos_cant domicilio_bool) = Inl (ValueError m)
     \<longrightarrow> snd (create_order st fecha cliente_id productos_cant domicilio_bool) = st
        \<and> (cliente_id \<notin> c_id ` set (ws_clientes st)
           \<or> (\<exists>(p, q)\<in>set productos_cant.
                 0 < q \<and> (case get_inventory_map (ws_inventario st) p of
                             None \<Rightarrow> True | Some s \<Rightarrow> s < q))))"
proof -
  let ?co = "create_order st fecha cliente_id productos_cant domicilio_bool"
  let ?v = "validar_stock (get_inventory_map (ws_inventario st)) productos_cant"
  let ?bad = "\<exists>(p, q)\<in>set productos_cant.
            0 < q \<and> (case get_inventory_map (ws_inventario st) p of
                        None \<Rightarrow> True | Some s \<Rightarrow> s < q)"
  have bad: "?bad \<longleftrightarrow> ?v \<noteq> None"
    by (simp only: validation_fails_iff)
  show ?thesis
  proof (cases "cliente_id \<in> c_id ` set (ws_clientes st)")
    case False
    from create_order_no_cliente [OF False, of fecha productos_cant domicilio_bool]
    have "?co = (Inl (ValueError ''ID cliente no encontrado''), st)" .
    with False show ?thesis by simp
  next
    case True
    show ?thesis
    proof (cases ?v)
      case (Some e)
      from validar_stock_ValueError [OF Some] obtain msg where e: "e = ValueError msg" ..
      from create_order_invalid [OF True Some, of fecha domicilio_bool] e
      have co: "?co = (Inl (ValueError msg), st)" by simp
      have "?bad" using Some by (simp only: bad) simp
      with co show ?thesis by simp
    next
      case None
      have nb: "\<not> ?bad" using None by (simp only: bad) simp
      have "fst ?co \<noteq> Inl (ValueError m)"
      proof
        assume a: "fst ?co = Inl (ValueError m)"
        from a have "fst (update_inventory_after_order (ws_inventario st) productos_cant)
                       = Some (ValueError m)"
          unfolding create_order_valid [OF True None] by (simp split: option.splits)
        from update_inventory_loop_error [OF this [unfolded update_inventory_after_order_def]]
        show False by simp
      qed
      with nb True show ?thesis by simp
    qed
  qed
qed

theorem create_order_all_or_nothing_witness:
  "(\<exists>(p, q)\<in>set [(''Arandanos_125g'', 6)].
       0 < q \<and> (case get_inventory_map (ws_inventario tienda0) p of
                   None \<Rightarrow> True | Some s \<Rightarrow> s < q))
   \<and> (\<exists>msg. create_order tienda0 ''2024-01-01 10:00:00'' 1 [(''Arandanos_125g'', 6)] True =
               (Inl (ValueError msg), tienda0)
             \<and> fst (create_order tienda0 ''2024-01-01 10:00:00'' 1 [(''Arandanos_125g'', 6)] True) =
               Inl (ValueError msg))
   \<and> snd (create_order tienda0 ''2024-01-01 10:00:00'' 1 [(''Arandanos_125g'', 6)] True) = tienda0"
proof -
  let ?pc = "[(''Arandanos_125g'', 6::int)]"
  let ?co = "create_order tienda0 ''2024-01-01 10:00:00'' 1 ?pc True"
  have h: "\<exists>(p, q)\<in>set ?pc.
       0 < q \<and> (case get_inventory_map (ws_inventario tienda0) p of
                   None \<Rightarrow> True | Some s \<Rightarrow> s < q)"
    by (simp add: tienda0_def PRODUCTOS_def get_inventory_map_def)
  have "\<exists>msg. ?co = (Inl (ValueError msg), tienda0)"
    by (rule create_order_all_or_nothing [THEN conjunct1, THEN mp, OF disjI2, OF h])
  then obtain msg where co: "?co = (Inl (ValueError msg), tienda0)" ..
  then have f: "fst ?co = Inl (ValueError msg)" by simp
  from create_order_all_or_nothing [THEN conjunct2, THEN mp, OF f]
  have s: "snd ?co = tienda0" by (rule conjunct1)
  from h co f s show ?thesis by (intro conjI exI [of _ msg])
qed

section \<open>The order row that is appended\<close>

text \<open>
  Claim C5. Every successful \<open>create_order\<close> appends exactly one order row. Its subtotal
  is the sum, over the line items, of the catalog unit price times the quantity, with price
  0 for a product that the catalog does not list; its delivery fee is the constant
  \<open>DOMICILIO_COST\<close> when delivery is requested and 0 otherwise; its total is subtotal
  plus delivery fee; its status is \<open>Pendiente\<close>, its payment method is empty, the amount
  paid is 0, and its outstanding balance is the subtotal, without the delivery fee.
\<close>

theorem create_order_row:
  assumes "create_order st fecha cliente_id productos_cant domicilio_bool = (Inr pid, st')"
  shows "\<exists>row. ws_pedidos st' = ws_pedidos st @ [row]
           \<and> p_id row = pid
           \<and> p_subtotal_productos row =
               sum_list (map (\<lambda>(p, q). (case map_of PRODUCTOS p of Some price \<Rightarrow> price | None \<Rightarrow> 0) * q)
                             productos_cant)
           \<and> p_monto_domicilio row = (if domicilio_bool then DOMICILIO_COST else 0)
           \<and> p_total_pedido row = p_subtotal_productos row + p_monto_domicilio row
           \<and> p_estado row = ''Pendiente''
           \<and> p_medio_pago row = []
           \<and> p_monto_pagado row = 0
           \<and> p_saldo_pendiente row = real_of_int (p_subtotal_productos row)"
  unfolding create_order_Inr_store(2) [OF assms] create_order_Inr_store(1) [OF assms]
    precio_de_def [symmetric]
  by simp

theorem create_order_row_witness:
  "create_order tienda0 ''2024-01-01 10:00:00'' 1 [(''Arandanos_500g'', 1)] True =
     (Inr 1, snd (create_order tienda0 ''2024-01-01 10:00:00'' 1 [(''Arandanos_500g'', 1)] True))
   \<and> (\<exists>row. ws_pedidos (snd (create_order tienda0 ''2024-01-01 10:00:00'' 1
                               [(''Arandanos_500g'', 1)] True)) = ws_pedidos tienda0 @ [row]
          \<and> p_id row = 1 \<and> p_subtotal_productos row = 20000 \<and> p_monto_domicilio row = 3000
          \<and> p_total_pedido row = 23000 \<and> p_estado row = ''Pendiente'' \<and> p_monto_pagado row = 0
          \<and> p_saldo_pendiente row = 20000)"
proof -
  let ?co = "create_order tienda0 ''2024-01-01 10:00:00'' 1 [(''Arandanos_500g'', 1)] True"
  have "validar_stock (get_inventory_map (ws_inventario tienda0)) [(''Arandanos_500g'', 1)] = None"
    by (simp add: get_inventory_map_tienda0 PRODUCTOS_def)
  from create_order_fst [OF tienda0_facts(1) this tienda0_facts(2)]
  have "fst ?co = Inr 1"
    by (simp add: tienda0_facts(3) next_id_for_sheet_def)
  then have h: "?co = (Inr 1, snd ?co)"
    by (simp add: prod_eq_iff)
  from create_order_row [OF h] obtain row where
    r: "ws_pedidos (snd ?co) = ws_pedidos tienda0 @ [row]" "p_id row = 1"
      "p_subtotal_productos row =
         sum_list (map (\<lambda>(p, q). (case map_of PRODUCTOS p of Some price \<Rightarrow> price | None \<Rightarrow> 0) * q)
                       [(''Arandanos_500g'', 1)])"
      "p_monto_domicilio row = (if True then DOMICILIO_COST else 0)"
      "p_total_pedido row = p_subtotal_productos row + p_monto_domicilio row"
      "p_estado row = ''Pendiente''" "p_monto_pagado row = 0"
      "p_saldo_pendiente row = real_of_int (p_subtotal_productos row)"
    by (elim exE conjE)
  from r(3) have s: "p_subtotal_productos row = 20000"
    by (simp add: PRODUCTOS_def)
  from r(4) have d: "p_monto_domicilio row = 3000"
    by (simp add: DOMICILIO_COST_def)
  from r(5) s d have t: "p_total_pedido row = 23000" by simp
  from r(8) s have b: "p_saldo_pendiente row = 20000" by simp
  from h r(1,2) s d t r(6,7) b show ?thesis
    by (intro conjI exI [of _ row])
qed

section \<open>The line-item detail\<close>

text \<open>
  Claim C8, as amended. For every successful \<open>create_order\<close> the stored detail is the
  join, with \<open>|\<close> between blanks, of one text per item with a positive quantity (the
  product, \<open>x\<close> and the quantity, the unit price after an at sign in parentheses), in
  the iteration order of the quantities that were passed in. When the quantities are
  the ones the order form builds, which iterates over the catalog, this is the catalog
  order of the specification.
\<close>

theorem create_order_detalle:
  assumes "create_order st fecha cliente_id productos_cant domicilio_bool = (Inr pid, st')"
  shows "p_productos_detalle (last (ws_pedidos st')) =
           join '' | ''
             (map (\<lambda>(p, q). p @ '' x'' @ str_int q @ '' (@'' @ str_int (precio_de p) @ '')'')
                  (filter (\<lambda>(p, q). 0 < q) productos_cant))
         \<and> (productos_cant = form_new_order_cant qf \<longrightarrow>
              p_productos_detalle (last (ws_pedidos st')) = detalle_orden_catalogo productos_cant)"
proof -
  have d: "p_productos_detalle (last (ws_pedidos st')) =
           join '' | '' (map (\<lambda>(p, q). detalle_item p q (precio_de p))
                            (filter (\<lambda>(p, q). 0 < q) productos_cant))"
    unfolding create_order_Inr_store(2) [OF assms] by simp
  have "productos_cant = form_new_order_cant qf \<Longrightarrow>
        p_productos_detalle (last (ws_pedidos st')) = detalle_orden_catalogo productos_cant"
    unfolding d detalle_orden_catalogo_def by (simp only: detalle_form_new_order)
  with d show ?thesis
    by (simp add: detalle_item_def)
qed

theorem create_order_detalle_witness:
  "create_order tienda0 ''2024-01-01 10:00:00'' 1
      (form_new_order_cant (\<lambda>p. if p = ''Arandanos_250g'' then 2 else if p = ''Arandanos_125g'' then 1 else 0))
      False =
     (Inr 1, snd (create_order tienda0 ''2024-01-01 10:00:00'' 1
      (form_new_order_cant (\<lambda>p. if p = ''Arandanos_250g'' then 2 else if p = ''Arandanos_125g'' then 1 else 0))
      False))
   \<and> p_productos_detalle (last (ws_pedidos (snd (create_order tienda0 ''2024-01-01 10:00:00'' 1
      (form_new_order_cant (\<lambda>p. if p = ''Arandanos_250g'' then 2 else if p = ''Arandanos_125g'' then 1 else 0))
      False)))) = ''Arandanos_125g x1 (@5000) | Arandanos_250g x2 (@10000)''
   \<and> p_productos_detalle (last (ws_pedidos (snd (create_order tienda0 ''2024-01-01 10:00:00'' 1
      (form_new_order_cant (\<lambda>p. if p = ''Arandanos_250g'' then 2 else if p = ''Arandanos_125g'' then 1 else 0))
      False)))) =
      detalle_orden_catalogo
        (form_new_order_cant (\<lambda>p. if p = ''Arandanos_250g'' then 2 else if p = ''Arandanos_125g'' then 1 else 0))"
proof -
  let ?qf = "\<lambda>p. if p = ''Arandanos_250g'' then 2 else if p = ''Arandanos_125g'' then 1 else (0::nat)"
  let ?pc = "form_new_order_cant ?qf"
  let ?co = "create_order tienda0 ''2024-01-01 10:00:00'' 1 ?pc False"
  have pc: "?pc = [(''Docena de Ar'' @ [CHR 0xC3, CHR 0xA1] @ ''ndanos 125g'', 0),
      (''Arandanos_125g'', 1), (''Arandanos_250g'', 2), (''Arandanos_500g'', 0),
      (''Kilo_industrial'', 0), (''Mermelada_azucar'', 0), (''Mermelada_sin_azucar'', 0)]"
    by (simp add: form_new_order_cant_def PRODUCTOS_def)
  have "validar_stock (get_inventory_map (ws_inventario tienda0)) ?pc = None"
    unfolding pc by (simp add: get_inventory_map_tienda0 PRODUCTOS_def)
  from create_order_fst [OF tienda0_facts(1) this tienda0_facts(2)]
  have "fst ?co = Inr 1"
    by (simp add: tienda0_facts(3) next_id_for_sheet_def)
  then have h: "?co = (Inr 1, snd ?co)"
    by (simp add: prod_eq_iff)
  note t = create_order_detalle [OF h, of ?qf]
  from t [THEN conjunct1]
  have d: "p_productos_detalle (last (ws_pedidos (snd ?co))) =
             ''Arandanos_125g x1 (@5000) | Arandanos_250g x2 (@10000)''"
    unfolding pc by (simp add: precio_de_def PRODUCTOS_def str_int_eval)
  from t [THEN conjunct2, THEN mp, OF refl]
  have c: "p_productos_detalle (last (ws_pedidos (snd ?co))) = detalle_orden_catalogo ?pc" .
  from h d c show ?thesis by (intro conjI)
qed

text \<open>
  The claim as stated fails: the order of the detail is that of the quantities passed
  in, not that of the catalog. Two items given with the 250 g tray first are stored in
  that order, while the catalog lists the 125 g tray first.
\<close>

theorem create_order_detalle_input_order:
  "fst (create_order tienda0 ''2024-01-01 10:00:00'' 1
          [(''Arandanos_250g'', 1), (''Arandanos_125g'', 1)] False) = Inr 1
   \<and> p_productos_detalle (last (ws_pedidos (snd (create_order tienda0 ''2024-01-01 10:00:00'' 1
          [(''Arandanos_250g'', 1), (''Arandanos_125g'', 1)] False)))) =
       ''Arandanos_250g x1 (@10000) | Arandanos_125g x1 (@5000)''
   \<and> detalle_orden_catalogo [(''Arandanos_250g'', 1), (''Arandanos_125g'', 1)] =
       ''Arandanos_125g x1 (@5000) | Arandanos_250g x1 (@10000)''
   \<and> p_productos_detalle (last (ws_pedidos (snd (create_order tienda0 ''2024-01-01 10:00:00'' 1
          [(''Arandanos_250g'', 1), (''Arandanos_125g'', 1)] False)))) \<noteq>
       detalle_orden_catalogo [(''Arandanos_250g'', 1), (''Arandanos_125g'', 1)]"
proof -
  let ?pc = "[(''Arandanos_250g'', 1::int), (''Arandanos_125g'', 1)]"
  let ?co = "create_order tienda0 ''2024-01-01 10:00:00'' 1 ?pc False"
  have "validar_stock (get_inventory_map (ws_inventario tienda0)) ?pc = None"
    by (simp add: get_inventory_map_tienda0 PRODUCTOS_def)
  from create_order_fst [OF tienda0_facts(1) this tienda0_facts(2)]
  have f: "fst ?co = Inr 1"
    by (simp add: tienda0_facts(3) next_id_for_sheet_def)
  then have h: "?co = (Inr 1, snd ?co)"
    by (simp add: prod_eq_iff)
  have d: "p_productos_detalle (last (ws_pedidos (snd ?co))) =
             ''Arandanos_250g x1 (@10000) | Arandanos_125g x1 (@5000)''"
    by (subst create_order_Inr_store(2) [OF h])
       (simp add: precio_de_def PRODUCTOS_def detalle_item_def str_int_eval)
  have c: "detalle_orden_catalogo ?pc = ''Arandanos_125g x1 (@5000) | Arandanos_250g x1 (@10000)''"
    by (simp add: detalle_orden_catalogo_def PRODUCTOS_def detalle_item_def str_int_eval)
  have "p_productos_detalle (last (ws_pedidos (snd ?co))) \<noteq> detalle_orden_catalogo ?pc"
    unfolding d c by simp
  with f d c show ?thesis by (intro conjI)
qed

section \<open>The errors of placing an order\<close>

text \<open>
  Claim C4. \<open>create_order\<close> raises exactly three errors, each a \<open>ValueError\<close> told
  apart by its message. It raises \<open>ID cliente no encontrado\<close> when the customer id is not
  in the customer sheet, whatever the rest of the input. For a registered customer the
  lines are checked in iteration order and the first failing line decides: a line that
  requests a product (quantity above 0) which the inventory map does not hold raises
  \<open>Producto no existe en inventario\<close> with the product name, and a line whose quantity
  exceeds the stock of its product raises \<open>Stock insuficiente\<close> with the product, the
  available stock and the requested quantity. No other \<open>ValueError\<close> is raised.
\<close>

theorem create_order_errors:
  "(cliente_id \<notin> c_id ` set (ws_clientes st) \<longrightarrow>
      create_order st fecha cliente_id productos_cant domicilio_bool =
        (Inl (ValueError ''ID cliente no encontrado''), st))
   \<and> (cliente_id \<in> c_id ` set (ws_clientes st)
        \<and> productos_cant = pre @ (p, q) # post
        \<and> (\<forall>(p', q')\<in>set pre.
              0 < q' \<longrightarrow> (\<exists>s'. get_inventory_map (ws_inventario st) p' = Some s' \<and> q' \<le> s'))
        \<and> 0 < q \<and> get_inventory_map (ws_inventario st) p = None \<longrightarrow>
      create_order st fecha cliente_id productos_cant domicilio_bool =
        (Inl (ValueError (''Producto no existe en inventario: '' @ p)), st))
   \<and> (cliente_id \<in> c_id ` set (ws_clientes st)
        \<and> productos_cant = pre @ (p, q) # post
        \<and> (\<forall>(p', q')\<in>set pre.
              0 < q' \<longrightarrow> (\<exists>s'. get_inventory_map (ws_inventario st) p' = Some s' \<and> q' \<le> s'))
        \<and> get_inventory_map (ws_inventario st) p = Some s \<and> 0 \<le> s \<and> s < q \<longrightarrow>
      create_order st fecha cliente_id productos_cant domicilio_bool =
        (Inl (ValueError (''Stock insuficiente para '' @ p @ '': disponible ''
                           @ str_int s @ '', pedido '' @ str_int q)), st))
   \<and> (fst (create_order st fecha cliente_id productos_cant domicilio_bool) = Inl (ValueError m) \<longrightarrow>
        (cliente_id \<notin> c_id ` set (ws_clientes st) \<and> m = ''ID cliente no encontrado'')
        \<or> (\<exists>pre' p' q' post'. productos_cant = pre' @ (p', q') # post' \<and> 0 < q'
              \<and> ((get_inventory_map (ws_inventario st) p' = None
                     \<and> m = ''Producto no existe en inventario: '' @ p')
                  \<or> (\<exists>s'. get_inventory_map (ws_inventario st) p' = Some s' \<and> s' < q'
                        \<and> m = ''Stock insuficiente para '' @ p' @ '': disponible ''
                                @ str_int s' @ '', pedido '' @ str_int q'))))"
proof (intro conjI impI)
  assume "cliente_id \<notin> c_id ` set (ws_clientes st)"
  then show "create_order st fecha cliente_id productos_cant domicilio_bool =
        (Inl (ValueError ''ID cliente no encontrado''), st)"
    by (rule create_order_no_cliente)
next
  assume a: "cliente_id \<in> c_id ` set (ws_clientes st)
        \<and> productos_cant = pre @ (p, q) # post
        \<and> (\<forall>(p', q')\<in>set pre.
              0 < q' \<longrightarrow> (\<exists>s'. get_inventory_map (ws_inventario st) p' = Some s' \<and> q' \<le> s'))
        \<and> 0 < q \<and> get_inventory_map (ws_inventario st) p = None"
  then have pc: "productos_cant = pre @ (p, q) # post" by simp
  from a have "validar_stock (get_inventory_map (ws_inventario st)) (pre @ (p, q) # post) =
             Some (ValueError (''Producto no existe en inventario: '' @ p))"
    by (intro validar_stock_first_fail(1)) simp_all
  with a show "create_order st fecha cliente_id productos_cant domicilio_bool =
        (Inl (ValueError (''Producto no existe en inventario: '' @ p)), st)"
    unfolding pc by (intro create_order_invalid) simp_all
next
  assume a: "cliente_id \<in> c_id ` set (ws_clientes st)
        \<and> productos_cant = pre @ (p, q) # post
        \<and> (\<forall>(p', q')\<in>set pre.
              0 < q' \<longrightarrow> (\<exists>s'. get_inventory_map (ws_inventario st) p' = Some s' \<and> q' \<le> s'))
        \<and> get_inventory_map (ws_inventario st) p = Some s \<and> 0 \<le> s \<and> s < q"
  then have pc: "productos_cant = pre @ (p, q) # post" and q: "0 < q" by simp_all
  from a q have "validar_stock (get_inventory_map (ws_inventario st)) (pre @ (p, q) # post) =
             Some (ValueError (''Stock insuficiente para '' @ p @ '': disponible ''
                                @ str_int s @ '', pedido '' @ str_int q))"
    by (intro validar_stock_first_fail(2)) simp_all
  with a show "create_order st fecha cliente_id productos_cant domicilio_bool =
        (Inl (ValueError (''Stock insuficiente para '' @ p @ '': disponible ''
                           @ str_int s @ '', pedido '' @ str_int q)), st)"
    unfolding pc by (intro create_order_invalid) simp_all
next
  let ?co = "create_order st fecha cliente_id productos_cant domicilio_bool"
  let ?v = "validar_stock (get_inventory_map (ws_inventario st)) productos_cant"
  assume f: "fst ?co = Inl (ValueError m)"
  show "(cliente_id \<notin> c_id ` set (ws_clientes st) \<and> m = ''ID cliente no encontrado'')
        \<or> (\<exists>pre' p' q' post'. productos_cant = pre' @ (p', q') # post' \<and> 0 < q'
              \<and> ((get_inventory_map (ws_inventario st) p' = None
                     \<and> m = ''Producto no existe en inventario: '' @ p')
                  \<or> (\<exists>s'. get_inventory_map (ws_inventario st) p' = Some s' \<and> s' < q'
                        \<and> m = ''Stock insuficiente para '' @ p' @ '': disponible ''
                                @ str_int s' @ '', pedido '' @ str_int q')))"
  proof (cases "cliente_id \<in> c_id ` set (ws_clientes st)")
    case False
    from create_order_no_cliente [OF False, of fecha productos_cant domicilio_bool] f
    have "m = ''ID cliente no encontrado''" by simp
    with False show ?thesis by simp
  next
    case True
    show ?thesis
    proof (cases ?v)
      case None
      from f have "fst (update_inventory_after_order (ws_inventario st) productos_cant)
                       = Some (ValueError m)"
        unfolding create_order_valid [OF True None] by (simp split: option.splits)
      from update_inventory_loop_error [OF this [unfolded update_inventory_after_order_def]]
      show ?thesis by simp
    next
      case (Some e)
      from create_order_invalid [OF True Some, of fecha domicilio_bool] f
      have e: "e = ValueError m" by simp
      from validar_stock_Some_split [OF Some] obtain pre' p' q' post' where
        "productos_cant = pre' @ (p', q') # post'" "0 < q'"
        "(get_inventory_map (ws_inventario st) p' = None
            \<and> e = ValueError (''Producto no existe en inventario: '' @ p'))
         \<or> (\<exists>s. get_inventory_map (ws_inventario st) p' = Some s \<and> s < q'
              \<and> e = ValueError (''Stock insuficiente para '' @ p' @ '': disponible ''
                                  @ str_int s @ '', pedido '' @ str_int q'))"
        by (elim exE conjE)
      then have "\<exists>pre' p' q' post'. productos_cant = pre' @ (p', q') # post' \<and> 0 < q'
              \<and> ((get_inventory_map (ws_inventario st) p' = None
                     \<and> m = ''Producto no existe en inventario: '' @ p')
                  \<or> (\<exists>s'. get_inventory_map (ws_inventario st) p' = Some s' \<and> s' < q'
                        \<and> m = ''Stock insuficiente para '' @ p' @ '': disponible ''
                                @ str_int s' @ '', pedido '' @ str_int q'))"
        unfolding e error.inject
        by (intro exI [of _ pre'] exI [of _ p'] exI [of _ q'] exI [of _ post'] conjI)
      then show ?thesis ..
    qed
  qed
qed

theorem create_order_errors_witness:
  "2 \<notin> c_id ` set (ws_clientes tienda0)
   \<and> create_order tienda0 ''2024-01-01 10:00:00'' 2 [(''Arandanos_125g'', 1)] False =
       (Inl (ValueError ''ID cliente no encontrado''), tienda0)
   \<and> get_inventory_map (ws_inventario tienda0) ''Fresa'' = None
   \<and> create_order tienda0 ''2024-01-01 10:00:00'' 1 [(''Arandanos_125g'', 1), (''Fresa'', 2)] False =
       (Inl (ValueError ''Producto no existe en inventario: Fresa''), tienda0)
   \<and> get_inventory_map (ws_inventario tienda0) ''Arandanos_125g'' = Some 5
   \<and> create_order tienda0 ''2024-01-01 10:00:00'' 1 [(''Arandanos_125g'', 6)] False =
       (Inl (ValueError ''Stock insuficiente para Arandanos_125g: disponible 5, pedido 6''), tienda0)
   \<and> (\<exists>pre' p' q' post'. [(''Arandanos_125g'', 6)] = pre' @ (p', q') # post' \<and> 0 < q'
         \<and> (\<exists>s'. get_inventory_map (ws_inventario tienda0) p' = Some s' \<and> s' < q'))"
proof -
  let ?f = "''2024-01-01 10:00:00''"
  have c2: "2 \<notin> c_id ` set (ws_clientes tienda0)"
    by (simp add: tienda0_def)
  from create_order_errors [THEN conjunct1, THEN mp, OF c2]
  have r1: "create_order tienda0 ?f 2 [(''Arandanos_125g'', 1)] False =
       (Inl (ValueError ''ID cliente no encontrado''), tienda0)" .
  have fresa: "get_inventory_map (ws_inventario tienda0) ''Fresa'' = None"
    by (simp add: get_inventory_map_tienda0 PRODUCTOS_def)
  have a125: "get_inventory_map (ws_inventario tienda0) ''Arandanos_125g'' = Some 5"
    by (simp add: get_inventory_map_tienda0 PRODUCTOS_def)
  have h2: "1 \<in> c_id ` set (ws_clientes tienda0)
        \<and> [(''Arandanos_125g'', 1), (''Fresa'', 2)] = [(''Arandanos_125g'', 1)] @ (''Fresa'', 2) # []
        \<and> (\<forall>(p', q')\<in>set [(''Arandanos_125g'', 1::int)].
              0 < q' \<longrightarrow> (\<exists>s'. get_inventory_map (ws_inventario tienda0) p' = Some s' \<and> q' \<le> s'))
        \<and> (0::int) < 2 \<and> get_inventory_map (ws_inventario tienda0) ''Fresa'' = None"
    using tienda0_facts(1) fresa a125 by simp
  from create_order_errors [THEN conjunct2, THEN conjunct1, THEN mp, OF h2]
  have r2: "create_order tienda0 ?f 1 [(''Arandanos_125g'', 1), (''Fresa'', 2)] False =
       (Inl (ValueError ''Producto no existe en inventario: Fresa''), tienda0)"
    by simp
  have h3: "1 \<in> c_id ` set (ws_clientes tienda0)
        \<and> [(''Arandanos_125g'', 6)] = [] @ (''Arandanos_125g'', 6) # []
        \<and> (\<forall>(p', q')\<in>set [].
              0 < q' \<longrightarrow> (\<exists>s'. get_inventory_map (ws_inventario tienda0) p' = Some s' \<and> q' \<le> s'))
        \<and> get_inventory_map (ws_inventario tienda0) ''Arandanos_125g'' = Some 5
        \<and> (0::int) \<le> 5 \<and> (5::int) < 6"
    using tienda0_facts(1) a125 by simp
  from create_order_errors [THEN conjunct2, THEN conjunct2, THEN conjunct1, THEN mp, OF h3]
  have r3: "create_order tienda0 ?f 1 [(''Arandanos_125g'', 6)] False =
       (Inl (ValueError ''Stock insuficiente para Arandanos_125g: disponible 5, pedido 6''), tienda0)"
    by (simp add: str_int_eval)
  then have f: "fst (create_order tienda0 ?f 1 [(''Arandanos_125g'', 6)] False) =
       Inl (ValueError ''Stock insuficiente para Arandanos_125g: disponible 5, pedido 6'')"
    by simp
  from create_order_errors [THEN conjunct2, THEN conjunct2, THEN conjunct2, THEN mp, OF f]
    tienda0_facts(1)
  have r4: "\<exists>pre' p' q' post'. [(''Arandanos_125g'', 6)] = pre' @ (p', q') # post' \<and> 0 < q'
         \<and> (\<exists>s'. get_inventory_map (ws_inventario tienda0) p' = Some s' \<and> s' < q')"
    by (auto simp: Cons_eq_append_conv a125)
  from c2 r1 fresa r2 a125 r3 r4 show ?thesis
    by (intro conjI)
qed

section \<open>Inventory stock\<close>

text \<open>
  Claim C3. A stock that is nowhere negative stays so after any operation of the
  application, whatever its arguments and whether or not it raises. After a successful
  \<open>create_order\<close> the stock of an ordered product is its previous stock minus the
  quantity, whenever the quantity does not exceed the previous stock; here the product names
  are unique in the inventory sheet and in the quantities, as keys are. A line that asks
  for more than the stock of its product makes \<open>create_order\<close> raise and leave the
  whole store, hence that stock, unchanged; when the customer is registered and no earlier
  line fails, the error is \<open>Stock insuficiente\<close> for that product.
\<close>

theorem inventory_stock:
  assumes "\<forall>r\<in>set (ws_inventario st). 0 \<le> snd r"
  shows "(\<forall>r\<in>set (ws_inventario (ejecutar st op)). 0 \<le> snd r)
   \<and> (distinct (map fst (ws_inventario st)) \<and> distinct (map fst productos_cant)
        \<and> create_order st fecha cliente_id productos_cant domicilio_bool = (Inr pid, st')
        \<and> (p, q) \<in> set productos_cant
        \<and> get_inventory_map (ws_inventario st) p = Some s \<and> q \<le> s \<longrightarrow>
      get_inventory_map (ws_inventario st') p = Some (s - q))
   \<and> ((p, q) \<in> set productos_cant
        \<and> get_inventory_map (ws_inventario st) p = Some s \<and> s < q \<longrightarrow>
      (\<exists>msg. create_order st fecha cliente_id productos_cant domicilio_bool =
              (Inl (ValueError msg), st)))
   \<and> (cliente_id \<in> c_id ` set (ws_clientes st)
        \<and> productos_cant = pre @ (p, q) # post
        \<and> (\<forall>(p', q')\<in>set pre.
              0 < q' \<longrightarrow> (\<exists>s'. get_inventory_map (ws_inventario st) p' = Some s' \<and> q' \<le> s'))
        \<and> get_inventory_map (ws_inventario st) p = Some s \<and> s < q \<longrightarrow>
      create_order st fecha cliente_id productos_cant domicilio_bool =
        (Inl (ValueError (''Stock insuficiente para '' @ p @ '': disponible ''
                           @ str_int s @ '', pedido '' @ str_int q)), st))"
proof (intro conjI impI)
  show "\<forall>r\<in>set (ws_inventario (ejecutar st op)). 0 \<le> snd r"
    by (rule ejecutar_stock_nonneg [OF assms])
next
  assume a: "distinct (map fst (ws_inventario st)) \<and> distinct (map fst productos_cant)
        \<and> create_order st fecha cliente_id productos_cant domicilio_bool = (Inr pid, st')
        \<and> (p, q) \<in> set productos_cant
        \<and> get_inventory_map (ws_inventario st) p = Some s \<and> q \<le> s"
  then have "get_inventory_map (ws_inventario st') p = Some (max 0 (s - q))"
    by (intro create_order_stock_after [of st productos_cant fecha cliente_id domicilio_bool pid])
       simp_all
  with a show "get_inventory_map (ws_inventario st') p = Some (s - q)"
    by simp
next
  let ?v = "validar_stock (get_inventory_map (ws_inventario st)) productos_cant"
  assume a: "(p, q) \<in> set productos_cant
        \<and> get_inventory_map (ws_inventario st) p = Some s \<and> s < q"
  then have "(p, s) \<in> set (ws_inventario st)"
    by (intro get_inventory_map_in_set) simp
  with assms have "0 \<le> s" by auto
  with a have bad: "\<exists>(p, q)\<in>set productos_cant.
            0 < q \<and> (case get_inventory_map (ws_inventario st) p of
                        None \<Rightarrow> True | Some s \<Rightarrow> s < q)"
    by (intro bexI [of _ "(p, q)"]) simp_all
  show "\<exists>msg. create_order st fecha cliente_id productos_cant domicilio_bool =
              (Inl (ValueError msg), st)"
  proof (cases "cliente_id \<in> c_id ` set (ws_clientes st)")
    case False
    from create_order_no_cliente [OF False] show ?thesis by blast
  next
    case True
    from bad have "?v \<noteq> None"
      by (simp only: validation_fails_iff)
    then obtain e where e: "?v = Some e" by auto
    from validar_stock_ValueError [OF e] obtain msg where "e = ValueError msg" ..
    with create_order_invalid [OF True e, of fecha domicilio_bool] show ?thesis by simp
  qed
next
  assume a: "cliente_id \<in> c_id ` set (ws_clientes st)
        \<and> productos_cant = pre @ (p, q) # post
        \<and> (\<forall>(p', q')\<in>set pre.
              0 < q' \<longrightarrow> (\<exists>s'. get_inventory_map (ws_inventario st) p' = Some s' \<and> q' \<le> s'))
        \<and> get_inventory_map (ws_inventario st) p = Some s \<and> s < q"
  then have pc: "productos_cant = pre @ (p, q) # post" by simp
  from a have "(p, s) \<in> set (ws_inventario st)"
    by (intro get_inventory_map_in_set) simp
  with assms have "0 \<le> s" by auto
  with a have q: "0 < q" by simp
  from a q have "validar_stock (get_inventory_map (ws_inventario st)) (pre @ (p, q) # post) =
             Some (ValueError (''Stock insuficiente para '' @ p @ '': disponible ''
                                @ str_int s @ '', pedido '' @ str_int q))"
    by (intro validar_stock_first_fail(2)) simp_all
  with a show "create_order st fecha cliente_id productos_cant domicilio_bool =
        (Inl (ValueError (''Stock insuficiente para '' @ p @ '': disponible ''
                           @ str_int s @ '', pedido '' @ str_int q)), st)"
    unfolding pc by (intro create_order_invalid) simp_all
qed

theorem inventory_stock_witness:
  "list_all (\<lambda>r. 0 \<le> snd r) (ws_inventario tienda0)
   \<and> list_all (\<lambda>r. 0 \<le> snd r)
        (ws_inventario
          (ejecutar tienda0 (CrearPedido ''2024-01-01 10:00:00'' 1 [(''Arandanos_125g'', 2)] False)))
   \<and> create_order tienda0 ''2024-01-01 10:00:00'' 1 [(''Arandanos_125g'', 2)] False =
       (Inr 1, snd (create_order tienda0 ''2024-01-01 10:00:00'' 1 [(''Arandanos_125g'', 2)] False))
   \<and> get_inventory_map (ws_inventario tienda0) ''Arandanos_125g'' = Some 5
   \<and> get_inventory_map (ws_inventario
         (snd (create_order tienda0 ''2024-01-01 10:00:00'' 1 [(''Arandanos_125g'', 2)] False)))
         ''Arandanos_125g'' = Some 3
   \<and> (\<exists>msg. create_order tienda0 ''2024-01-01 10:00:00'' 1 [(''Arandanos_125g'', 6)] False =
              (Inl (ValueError msg), tienda0))
   \<and> create_order tienda0 ''2024-01-01 10:00:00'' 1 [(''Arandanos_125g'', 6)] False =
       (Inl (ValueError ''Stock insuficiente para Arandanos_125g: disponible 5, pedido 6''), tienda0)"
proof -
  let ?f = "''2024-01-01 10:00:00''"
  let ?co = "create_order tienda0 ?f 1 [(''Arandanos_125g'', 2)] False"
  note nn = tienda0_facts(5)
  note t = inventory_stock [OF nn]
  have r1: "\<forall>r\<in>set (ws_inventario
          (ejecutar tienda0 (CrearPedido ?f 1 [(''Arandanos_125g'', 2)] False))). 0 \<le> snd r"
    by (rule t [THEN conjunct1])
  have a125: "get_inventory_map (ws_inventario tienda0) ''Arandanos_125g'' = Some 5"
    by (simp add: get_inventory_map_tienda0 PRODUCTOS_def)
  have "validar_stock (get_inventory_map (ws_inventario tienda0)) [(''Arandanos_125g'', 2)] = None"
    by (simp add: a125)
  from create_order_fst [OF tienda0_facts(1) this tienda0_facts(2)]
  have "fst ?co = Inr 1"
    by (simp add: tienda0_facts(3) next_id_for_sheet_def)
  then have h: "?co = (Inr 1, snd ?co)"
    by (simp add: prod_eq_iff)
  have h2: "distinct (map fst (ws_inventario tienda0)) \<and> distinct (map fst [(''Arandanos_125g'', 2::int)])
        \<and> ?co = (Inr 1, snd ?co)
        \<and> (''Arandanos_125g'', 2) \<in> set [(''Arandanos_125g'', 2::int)]
        \<and> get_inventory_map (ws_inventario tienda0) ''Arandanos_125g'' = Some 5 \<and> (2::int) \<le> 5"
    using tienda0_facts(4) h a125 by simp
  from t [THEN conjunct2, THEN conjunct1, THEN mp, OF h2]
  have r2: "get_inventory_map (ws_inventario (snd ?co)) ''Arandanos_125g'' = Some 3"
    by simp
  have h3: "(''Arandanos_125g'', 6) \<in> set [(''Arandanos_125g'', 6::int)]
        \<and> get_inventory_map (ws_inventario tienda0) ''Arandanos_125g'' = Some 5 \<and> (5::int) < 6"
    using a125 by simp
  from t [THEN conjunct2, THEN conjunct2, THEN conjunct1, THEN mp, OF h3]
  have r3: "\<exists>msg. create_order tienda0 ?f 1 [(''Arandanos_125g'', 6)] False =
              (Inl (ValueError msg), tienda0)" .
  have h4: "1 \<in> c_id ` set (ws_clientes tienda0)
        \<and> [(''Arandanos_125g'', 6)] = [] @ (''Arandanos_125g'', 6) # []
        \<and> (\<forall>(p', q')\<in>set [].
              0 < q' \<longrightarrow> (\<exists>s'. get_inventory_map (ws_inventario tienda0) p' = Some s' \<and> q' \<le> s'))
        \<and> get_inventory_map (ws_inventario tienda0) ''Arandanos_125g'' = Some 5 \<and> (5::int) < 6"
    using tienda0_facts(1) a125 by simp
  from t [THEN conjunct2, THEN conjunct2, THEN conjunct2, THEN mp, OF h4]
  have r4: "create_order tienda0 ?f 1 [(''Arandanos_125g'', 6)] False =
       (Inl (ValueError ''Stock insuficiente para Arandanos_125g: disponible 5, pedido 6''), tienda0)"
    by (simp add: str_int_eval)
  from nn r1 h a125 r2 r3 r4 show ?thesis
    unfolding list_all_iff by (intro conjI)
qed

section \<open>Lines with a quantity that is not positive\<close>

text \<open>
  Claim C10. In \<open>create_order\<close> the lines with a quantity of 0 or less are exempt from
  the product-existence check and from the stock check: validation gives the same result
  with and without them. The subtotal sums price times quantity over all lines, and the
  stock of an ordered product that the inventory holds becomes \<open>max 0 (current - quantity)\<close>.
  So an otherwise valid order of a registered customer with a negative quantity for a product
  that the inventory holds and the catalog lists succeeds, raises the stock of that product
  by the absolute quantity, and records a subtotal, and an equal outstanding balance,
  that is the subtotal of the other lines minus price times the absolute quantity; the
  witness shows a subtotal below zero.
\<close>

theorem create_order_negative_quantity:
  assumes "cliente_id \<in> c_id ` set (ws_clientes st)"
    and "distinct (map fst (ws_inventario st))" and "distinct (map fst productos_cant)"
    and "\<forall>(p', q')\<in>set productos_cant.
           0 < q' \<longrightarrow> (\<exists>s'. get_inventory_map (ws_inventario st) p' = Some s' \<and> q' \<le> s')"
    and "(p, q) \<in> set productos_cant" and "q < 0"
    and "get_inventory_map (ws_inventario st) p = Some s" and "0 \<le> s"
    and "map_of PRODUCTOS p = Some price"
  shows "validar_stock m (filter (\<lambda>(p', q'). 0 < q') productos_cant) = validar_stock m productos_cant
    \<and> (\<exists>pid st' row.
          create_order st fecha cliente_id productos_cant domicilio_bool = (Inr pid, st')
        \<and> get_inventory_map (ws_inventario st') p = Some (s + \<bar>q\<bar>)
        \<and> ws_pedidos st' = ws_pedidos st @ [row]
        \<and> p_subtotal_productos row =
            sum_list (map (\<lambda>(p', q'). precio_de p' * q') (remove1 (p, q) productos_cant))
              - price * \<bar>q\<bar>
        \<and> p_saldo_pendiente row = real_of_int (p_subtotal_productos row)
        \<and> p_subtotal_productos row = sum_list (map (\<lambda>(p', q'). precio_de p' * q') productos_cant)
        \<and> (\<forall>p' q' s'. (p', q') \<in> set productos_cant
                \<and> get_inventory_map (ws_inventario st) p' = Some s' \<longrightarrow>
              get_inventory_map (ws_inventario st') p' = Some (max 0 (s' - q'))))"
proof
  show "validar_stock m (filter (\<lambda>(p', q'). 0 < q') productos_cant) = validar_stock m productos_cant"
    by (rule validar_stock_filter)
next
  let ?co = "create_order st fecha cliente_id productos_cant domicilio_bool"
  from assms(4) have v: "validar_stock (get_inventory_map (ws_inventario st)) productos_cant = None"
    by (simp only: validar_stock_None_iff)
  from get_inventory_map_in_set [OF assms(7)] have ne: "ws_inventario st \<noteq> []" by auto
  from create_order_fst [OF assms(1) v ne, of fecha domicilio_bool]
  obtain pid where "fst ?co = Inr pid" ..
  then have h: "?co = (Inr pid, snd ?co)"
    by (simp add: prod_eq_iff)
  let ?row = "last (ws_pedidos (snd ?co))"
  have stock: "get_inventory_map (ws_inventario (snd ?co)) p = Some (s + \<bar>q\<bar>)"
    using create_order_stock_after [OF assms(2,3) h assms(5,7)] assms(6,8) by simp
  have peds: "ws_pedidos (snd ?co) = ws_pedidos st @ [?row]"
    by (subst (1 2) create_order_Inr_store(2) [OF h]) simp
  have sub: "p_subtotal_productos ?row = sum_list (map (\<lambda>(p', q'). precio_de p' * q') productos_cant)"
    by (subst create_order_Inr_store(2) [OF h]) simp
  have saldo: "p_saldo_pendiente ?row = real_of_int (p_subtotal_productos ?row)"
    by (subst (1 2) create_order_Inr_store(2) [OF h]) simp
  have pr: "precio_de p = price"
    using assms(9) by (simp add: precio_de_def)
  from sum_list_map_remove1 [OF assms(5), of "\<lambda>(p', q'). precio_de p' * q'"] pr assms(6)
  have "sum_list (map (\<lambda>(p', q'). precio_de p' * q') productos_cant) =
        sum_list (map (\<lambda>(p', q'). precio_de p' * q') (remove1 (p, q) productos_cant)) - price * \<bar>q\<bar>"
    by simp
  with sub have sub': "p_subtotal_productos ?row =
        sum_list (map (\<lambda>(p', q'). precio_de p' * q') (remove1 (p, q) productos_cant)) - price * \<bar>q\<bar>"
    by simp
  have all: "\<forall>p' q' s'. (p', q') \<in> set productos_cant
                \<and> get_inventory_map (ws_inventario st) p' = Some s' \<longrightarrow>
              get_inventory_map (ws_inventario (snd ?co)) p' = Some (max 0 (s' - q'))"
    using create_order_stock_after [OF assms(2,3) h] by blast
  from h stock peds sub' saldo sub all
  show "\<exists>pid st' row.
          create_order st fecha cliente_id productos_cant domicilio_bool = (Inr pid, st')
        \<and> get_inventory_map (ws_inventario st') p = Some (s + \<bar>q\<bar>)
        \<and> ws_pedidos st' = ws_pedidos st @ [row]
        \<and> p_subtotal_productos row =
            sum_list (map (\<lambda>(p', q'). precio_de p' * q') (remove1 (p, q) productos_cant))
              - price * \<bar>q\<bar>
        \<and> p_saldo_pendiente row = real_of_int (p_subtotal_productos row)
        \<and> p_subtotal_productos row = sum_list (map (\<lambda>(p', q'). precio_de p' * q') productos_cant)
        \<and> (\<forall>p' q' s'. (p', q') \<in> set productos_cant
                \<and> get_inventory_map (ws_inventario st) p' = Some s' \<longrightarrow>
              get_inventory_map (ws_inventario st') p' = Some (max 0 (s' - q')))"
    by (intro exI [of _ pid] exI [of _ "snd ?co"] exI [of _ ?row] conjI)
qed

theorem create_order_negative_quantity_witness:
  "1 \<in> c_id ` set (ws_clientes tienda0)
   \<and> get_inventory_map (ws_inventario tienda0) ''Arandanos_125g'' = Some 5
   \<and> map_of PRODUCTOS ''Arandanos_125g'' = Some 5000
   \<and> (\<exists>pid st' row.
         create_order tienda0 ''2024-01-01 10:00:00'' 1
           [(''Arandanos_250g'', 1), (''Arandanos_125g'', - 3)] False = (Inr pid, st')
       \<and> get_inventory_map (ws_inventario st') ''Arandanos_125g'' = Some 8
       \<and> ws_pedidos st' = ws_pedidos tienda0 @ [row]
       \<and> p_subtotal_productos row = - 5000
       \<and> p_saldo_pendiente row = - 5000)"
proof -
  let ?pc = "[(''Arandanos_250g'', 1::int), (''Arandanos_125g'', - 3)]"
  have a125: "get_inventory_map (ws_inventario tienda0) ''Arandanos_125g'' = Some 5"
    and a250: "get_inventory_map (ws_inventario tienda0) ''Arandanos_250g'' = Some 5"
    by (simp_all add: get_inventory_map_tienda0 PRODUCTOS_def)
  have pr: "map_of PRODUCTOS ''Arandanos_125g'' = Some 5000"
    by (simp add: PRODUCTOS_def)
  have ok: "\<forall>(p', q')\<in>set ?pc.
           0 < q' \<longrightarrow> (\<exists>s'. get_inventory_map (ws_inventario tienda0) p' = Some s' \<and> q' \<le> s')"
    by (simp add: a250)
  have d: "distinct (map fst ?pc)" and mem: "(''Arandanos_125g'', - 3) \<in> set ?pc"
    and neg: "(- 3::int) < 0" and s: "(0::int) \<le> 5"
    by simp_all
  from create_order_negative_quantity
         [OF tienda0_facts(1) tienda0_facts(4) d ok mem neg a125 s pr,
          of Map.empty "''2024-01-01 10:00:00''" False, THEN conjunct2]
  obtain pid st' row where
    r: "create_order tienda0 ''2024-01-01 10:00:00'' 1 ?pc False = (Inr pid, st')"
      "get_inventory_map (ws_inventario st') ''Arandanos_125g'' = Some (5 + \<bar>- 3\<bar>)"
      "ws_pedidos st' = ws_pedidos tienda0 @ [row]"
      "p_subtotal_productos row =
         sum_list (map (\<lambda>(p', q'). precio_de p' * q') (remove1 (''Arandanos_125g'', - 3) ?pc))
           - 5000 * \<bar>- 3\<bar>"
      "p_saldo_pendiente row = real_of_int (p_subtotal_productos row)"
    by (elim exE conjE)
  from r(2) have r2: "get_inventory_map (ws_inventario st') ''Arandanos_125g'' = Some 8"
    by simp
  from r(4) have r4: "p_subtotal_productos row = - 5000"
    by (simp add: precio_de_def PRODUCTOS_def)
  from r(5) r4 have r5: "p_saldo_pendiente row = - 5000"
    by simp
  from tienda0_facts(1) a125 pr r(1) r2 r(3) r4 r5 show ?thesis
    by (intro conjI exI [of _ pid] exI [of _ st'] exI [of _ row])
qed

section \<open>The outstanding balance\<close>

text \<open>
  Claim C9, as amended. An order appended by \<open>create_order\<close> with quantities that are
  all 0 or more has an outstanding balance that is not negative and at most subtotal plus
  delivery fee minus the amount paid. An order updated by \<open>mark_order_delivered\<close>, with
  any amount paid, has a stored outstanding balance that is not negative. When that is the
  first settlement of the order, that is, when the cash-flow sheet holds no row of the
  order before the call, the stored balance is at most (indeed equal to) subtotal plus
  delivery fee minus the amounts applied to the order, summed over all its cash-flow rows.
\<close>

theorem outstanding_balance:
  "(create_order st fecha cliente_id productos_cant domicilio_bool = (Inr pid, st')
      \<and> (\<forall>(p, q)\<in>set productos_cant. 0 \<le> q) \<longrightarrow>
    (\<exists>row. ws_pedidos st' = ws_pedidos st @ [row]
       \<and> 0 \<le> p_saldo_pendiente row
       \<and> p_saldo_pendiente row \<le>
           real_of_int (p_subtotal_productos row) + real_of_int (p_monto_domicilio row)
             - p_monto_pagado row))
   \<and> (find (\<lambda>r. p_id r = order_id) (ws_pedidos st) = Some row0 \<longrightarrow>
    (\<exists>r row'. fst (mark_order_delivered st fecha' order_id medio_pago A) = Inr r
       \<and> find (\<lambda>r. p_id r = order_id)
            (ws_pedidos (snd (mark_order_delivered st fecha' order_id medio_pago A))) = Some row'
       \<and> p_saldo_pendiente row' = saldo_total r
       \<and> 0 \<le> p_saldo_pendiente row'))
   \<and> (find (\<lambda>r. p_id r = order_id) (ws_pedidos st) = Some row0
        \<and> filter (\<lambda>e. f_id_pedido e = order_id) (ws_flujo st) = [] \<longrightarrow>
    (\<exists>row'. find (\<lambda>r. p_id r = order_id)
            (ws_pedidos (snd (mark_order_delivered st fecha' order_id medio_pago A))) = Some row'
       \<and> 0 \<le> p_saldo_pendiente row'
       \<and> p_saldo_pendiente row' \<le>
           real_of_int (p_subtotal_productos row') + real_of_int (p_monto_domicilio row')
             - sum_list (map (\<lambda>e. f_ingreso_productos_recibido e + f_ingreso_domicilio_recibido e)
                  (filter (\<lambda>e. f_id_pedido e = order_id)
                     (ws_flujo (snd (mark_order_delivered st fecha' order_id medio_pago A)))))
       \<and> p_saldo_pendiente row' =
           real_of_int (p_subtotal_productos row') + real_of_int (p_monto_domicilio row')
             - sum_list (map (\<lambda>e. f_ingreso_productos_recibido e + f_ingreso_domicilio_recibido e)
                  (filter (\<lambda>e. f_id_pedido e = order_id)
                     (ws_flujo (snd (mark_order_delivered st fecha' order_id medio_pago A)))))))"
proof (intro conjI impI)
  assume a: "create_order st fecha cliente_id productos_cant domicilio_bool = (Inr pid, st')
      \<and> (\<forall>(p, q)\<in>set productos_cant. 0 \<le> q)"
  then have ok: "create_order st fecha cliente_id productos_cant domicilio_bool = (Inr pid, st')"
    and nn: "\<forall>(p, q)\<in>set productos_cant. 0 \<le> q"
    by simp_all
  let ?row = "last (ws_pedidos st')"
  let ?sub = "sum_list (map (\<lambda>(p, q). precio_de p * q) productos_cant)"
  have peds: "ws_pedidos st' = ws_pedidos st @ [?row]"
    by (subst (1 2) create_order_Inr_store(2) [OF ok]) simp
  have f: "p_saldo_pendiente ?row = real_of_int ?sub" "p_subtotal_productos ?row = ?sub"
    "p_monto_domicilio ?row = (if domicilio_bool then DOMICILIO_COST else 0)"
    "p_monto_pagado ?row = 0"
    by (subst create_order_Inr_store(2) [OF ok], simp)+
  from subtotal_nonneg [OF nn] have s0: "0 \<le> real_of_int ?sub" by simp
  have d0: "0 \<le> real_of_int (if domicilio_bool then DOMICILIO_COST else 0)"
    by (simp add: DOMICILIO_COST_def)
  from s0 d0 have "0 \<le> p_saldo_pendiente ?row
       \<and> p_saldo_pendiente ?row \<le>
           real_of_int (p_subtotal_productos ?row) + real_of_int (p_monto_domicilio ?row)
             - p_monto_pagado ?row"
    unfolding f by simp
  with peds show "\<exists>row. ws_pedidos st' = ws_pedidos st @ [row]
       \<and> 0 \<le> p_saldo_pendiente row
       \<and> p_saldo_pendiente row \<le>
           real_of_int (p_subtotal_productos row) + real_of_int (p_monto_domicilio row)
             - p_monto_pagado row"
    by (intro exI [of _ ?row] conjI) simp_all
next
  let ?md = "mark_order_delivered st fecha' order_id medio_pago A"
  assume a: "find (\<lambda>r. p_id r = order_id) (ws_pedidos st) = Some row0"
  from find_first_index [OF a]
  obtain i where i: "first_index (\<lambda>r. p_id r = order_id) (ws_pedidos st) = Some i"
    and row: "ws_pedidos st ! i = row0"
    by (elim exE conjE)
  define S where "S = real_of_int (p_subtotal_productos row0)"
  define F where "F = real_of_int (p_monto_domicilio row0)"
  let ?pp = "min A S" and ?dp = "min (max 0 (A - min A S)) F"
  let ?r = "\<lparr>prod_paid = ?pp, domicilio_paid = ?dp, saldo_total = (S - ?pp) + (F - ?dp)\<rparr>"
  have r: "fst ?md = Inr ?r"
    unfolding mark_order_delivered_found [OF i] row S_def F_def ..
  let ?row' = "row0\<lparr>p_estado := ''Entregado'', p_medio_pago := medio_pago,
                   p_monto_pagado := A, p_saldo_pendiente := (S - ?pp) + (F - ?dp)\<rparr>"
  have peds: "ws_pedidos (snd ?md) = (ws_pedidos st)[i := ?row']"
    unfolding mark_order_delivered_pedidos [OF i] r row by simp
  from first_index_Some [OF i] row have "p_id row0 = order_id" by simp
  then have "p_id ?row' = order_id" by simp
  from find_list_update [OF i, of ?row', OF this]
  have fnd: "find (\<lambda>r. p_id r = order_id) (ws_pedidos (snd ?md)) = Some ?row'"
    unfolding peds .
  have sal: "p_saldo_pendiente ?row' = saldo_total ?r" by simp
  have nn: "0 \<le> p_saldo_pendiente ?row'"
    using allocation_bounds(1) [of S A F] by simp
  from r fnd sal nn
  show "\<exists>r row'. fst ?md = Inr r
       \<and> find (\<lambda>r. p_id r = order_id) (ws_pedidos (snd ?md)) = Some row'
       \<and> p_saldo_pendiente row' = saldo_total r
       \<and> 0 \<le> p_saldo_pendiente row'"
    by (intro exI [of _ ?r] exI [of _ ?row'] conjI)
next
  let ?md = "mark_order_delivered st fecha' order_id medio_pago A"
  let ?ap = "\<lambda>e. f_ingreso_productos_recibido e + f_ingreso_domicilio_recibido e"
  assume a: "find (\<lambda>r. p_id r = order_id) (ws_pedidos st) = Some row0
        \<and> filter (\<lambda>e. f_id_pedido e = order_id) (ws_flujo st) = []"
  then have fnd0: "find (\<lambda>r. p_id r = order_id) (ws_pedidos st) = Some row0"
    and first: "filter (\<lambda>e. f_id_pedido e = order_id) (ws_flujo st) = []"
    by simp_all
  from find_first_index [OF fnd0]
  obtain i where i: "first_index (\<lambda>r. p_id r = order_id) (ws_pedidos st) = Some i"
    and row: "ws_pedidos st ! i = row0"
    by (elim exE conjE)
  define S where "S = real_of_int (p_subtotal_productos row0)"
  define F where "F = real_of_int (p_monto_domicilio row0)"
  let ?pp = "min A S" and ?dp = "min (max 0 (A - min A S)) F"
  let ?r = "\<lparr>prod_paid = ?pp, domicilio_paid = ?dp, saldo_total = (S - ?pp) + (F - ?dp)\<rparr>"
  have r: "fst ?md = Inr ?r"
    unfolding mark_order_delivered_found [OF i] row S_def F_def ..
  let ?row' = "row0\<lparr>p_estado := ''Entregado'', p_medio_pago := medio_pago,
                   p_monto_pagado := A, p_saldo_pendiente := (S - ?pp) + (F - ?dp)\<rparr>"
  have peds: "ws_pedidos (snd ?md) = (ws_pedidos st)[i := ?row']"
    unfolding mark_order_delivered_pedidos [OF i] r row by simp
  from first_index_Some [OF i] row have "p_id row0 = order_id" by simp
  then have "p_id ?row' = order_id" by simp
  from find_list_update [OF i, of ?row', OF this]
  have fnd: "find (\<lambda>r. p_id r = order_id) (ws_pedidos (snd ?md)) = Some ?row'"
    unfolding peds .
  have nn: "0 \<le> p_saldo_pendiente ?row'"
    using allocation_bounds(1) [of S A F] by simp
  have "filter (\<lambda>e. f_id_pedido e = order_id) (ws_flujo (snd ?md)) =
          [\<lparr>f_fecha = fecha', f_id_pedido = order_id,
            f_cliente = p_nombre_cliente row0, f_medio_pago = medio_pago,
            f_ingreso_productos_recibido = ?pp, f_ingreso_domicilio_recibido = ?dp,
            f_saldo_pendiente_total = (S - ?pp) + (F - ?dp)\<rparr>]"
    unfolding mark_order_delivered_flujo [OF i] r row by (simp add: first)
  then have applied: "sum_list (map ?ap (filter (\<lambda>e. f_id_pedido e = order_id) (ws_flujo (snd ?md)))) =
          ?pp + ?dp"
    by simp
  have eq: "p_saldo_pendiente ?row' =
           real_of_int (p_subtotal_productos ?row') + real_of_int (p_monto_domicilio ?row')
             - sum_list (map ?ap (filter (\<lambda>e. f_id_pedido e = order_id) (ws_flujo (snd ?md))))"
    unfolding applied using allocation_bounds(2) [of S A F] by (simp add: S_def F_def)
  then have le: "p_saldo_pendiente ?row' \<le>
           real_of_int (p_subtotal_productos ?row') + real_of_int (p_monto_domicilio ?row')
             - sum_list (map ?ap (filter (\<lambda>e. f_id_pedido e = order_id) (ws_flujo (snd ?md))))"
    by simp
  from fnd nn le eq
  show "\<exists>row'. find (\<lambda>r. p_id r = order_id) (ws_pedidos (snd ?md)) = Some row'
       \<and> 0 \<le> p_saldo_pendiente row'
       \<and> p_saldo_pendiente row' \<le>
           real_of_int (p_subtotal_productos row') + real_of_int (p_monto_domicilio row')
             - sum_list (map ?ap (filter (\<lambda>e. f_id_pedido e = order_id) (ws_flujo (snd ?md))))
       \<and> p_saldo_pendiente row' =
           real_of_int (p_subtotal_productos row') + real_of_int (p_monto_domicilio row')
             - sum_list (map ?ap (filter (\<lambda>e. f_id_pedido e = order_id) (ws_flujo (snd ?md))))"
    by (intro exI [of _ ?row'] conjI)
qed

theorem outstanding_balance_witness:
  "create_order tienda0 ''2024-01-01 10:00:00'' 1 [(''Arandanos_500g'', 1)] True =
     (Inr 1, snd (create_order tienda0 ''2024-01-01 10:00:00'' 1 [(''Arandanos_500g'', 1)] True))
   \<and> list_all (\<lambda>(p, q). 0 \<le> q) [(''Arandanos_500g'', 1::int)]
   \<and> (\<exists>row. ws_pedidos (snd (create_order tienda0 ''2024-01-01 10:00:00'' 1
                               [(''Arandanos_500g'', 1)] True)) = ws_pedidos tienda0 @ [row]
          \<and> 0 \<le> p_saldo_pendiente row
          \<and> p_saldo_pendiente row \<le>
              real_of_int (p_subtotal_productos row) + real_of_int (p_monto_domicilio row)
                - p_monto_pagado row)
   \<and> find (\<lambda>r. p_id r = 1) (ws_pedidos tienda1) = Some pedido1
   \<and> filter (\<lambda>e. f_id_pedido e = 1) (ws_flujo tienda1) = []
   \<and> (\<exists>r row'. fst (mark_order_delivered tienda1 ''2024-01-02 09:00:00'' 1 ''Pago parcial'' 15000) = Inr r
          \<and> find (\<lambda>r. p_id r = 1) (ws_pedidos tienda2) = Some row'
          \<and> p_saldo_pendiente row' = saldo_total r
          \<and> 0 \<le> p_saldo_pendiente row')
   \<and> (\<exists>row'. find (\<lambda>r. p_id r = 1) (ws_pedidos tienda2) = Some row'
          \<and> 0 \<le> p_saldo_pendiente row'
          \<and> p_saldo_pendiente row' \<le>
              real_of_int (p_subtotal_productos row') + real_of_int (p_monto_domicilio row')
                - sum_list (map (\<lambda>e. f_ingreso_productos_recibido e + f_ingreso_domicilio_recibido e)
                     (filter (\<lambda>e. f_id_pedido e = 1) (ws_flujo tienda2)))
          \<and> p_saldo_pendiente row' = 8000)"
proof -
  let ?pc = "[(''Arandanos_500g'', 1::int)]"
  let ?co = "create_order tienda0 ''2024-01-01 10:00:00'' 1 ?pc True"
  let ?ap = "\<lambda>e. f_ingreso_productos_recibido e + f_ingreso_domicilio_recibido e"
  have "validar_stock (get_inventory_map (ws_inventario tienda0)) ?pc = None"
    by (simp add: get_inventory_map_tienda0 PRODUCTOS_def)
  from create_order_fst [OF tienda0_facts(1) this tienda0_facts(2)]
  have "fst ?co = Inr 1"
    by (simp add: tienda0_facts(3) next_id_for_sheet_def)
  then have h: "?co = (Inr 1, snd ?co)"
    by (simp add: prod_eq_iff)
  have nn: "\<forall>(p, q)\<in>set ?pc. 0 \<le> q"
    by simp
  from outstanding_balance [THEN conjunct1, THEN mp, OF conjI, OF h nn]
  have c: "\<exists>row. ws_pedidos (snd ?co) = ws_pedidos tienda0 @ [row]
          \<and> 0 \<le> p_saldo_pendiente row
          \<and> p_saldo_pendiente row \<le>
              real_of_int (p_subtotal_productos row) + real_of_int (p_monto_domicilio row)
                - p_monto_pagado row" .
  have f: "find (\<lambda>r. p_id r = 1) (ws_pedidos tienda1) = Some pedido1"
    by (simp add: tienda1_def pedido1_def)
  have e: "filter (\<lambda>e. f_id_pedido e = 1) (ws_flujo tienda1) = []"
    by (simp add: tienda1_def tienda0_def)
  from outstanding_balance [THEN conjunct2, THEN conjunct1, THEN mp, OF f,
         of "''2024-01-02 09:00:00''" "''Pago parcial''" 15000]
  have d: "\<exists>r row'. fst (mark_order_delivered tienda1 ''2024-01-02 09:00:00'' 1 ''Pago parcial'' 15000) = Inr r
          \<and> find (\<lambda>r. p_id r = 1) (ws_pedidos tienda2) = Some row'
          \<and> p_saldo_pendiente row' = saldo_total r
          \<and> 0 \<le> p_saldo_pendiente row'"
    unfolding tienda2_def .
  from outstanding_balance [THEN conjunct2, THEN conjunct2, THEN mp, OF conjI, OF f e,
         of "''2024-01-02 09:00:00''" "''Pago parcial''" 15000]
  obtain row' where
    g: "find (\<lambda>r. p_id r = 1) (ws_pedidos tienda2) = Some row'"
      "0 \<le> p_saldo_pendiente row'"
      "p_saldo_pendiente row' \<le>
              real_of_int (p_subtotal_productos row') + real_of_int (p_monto_domicilio row')
                - sum_list (map ?ap (filter (\<lambda>e. f_id_pedido e = 1) (ws_flujo tienda2)))"
    unfolding tienda2_def by (elim exE conjE)
  from g(1) have "p_saldo_pendiente row' = 8000"
    unfolding tienda2_sheets(1) by (auto simp: pedido1_def)
  with g have k: "\<exists>row'. find (\<lambda>r. p_id r = 1) (ws_pedidos tienda2) = Some row'
          \<and> 0 \<le> p_saldo_pendiente row'
          \<and> p_saldo_pendiente row' \<le>
              real_of_int (p_subtotal_productos row') + real_of_int (p_monto_domicilio row')
                - sum_list (map ?ap (filter (\<lambda>e. f_id_pedido e = 1) (ws_flujo tienda2)))
          \<and> p_saldo_pendiente row' = 8000"
    by (intro exI [of _ row'] conjI)
  from h nn c f e d k show ?thesis
    unfolding list_all_iff by (intro conjI)
qed

text \<open>
  The claim as stated fails in two ways. For any integer quantities: one unit less than
  nothing of the 125 g tray is accepted and the order is stored with a negative balance.
  For any settlement: an order of 20000 with the fee of 3000, settled with 15000 and then
  again with 8000, is stored with a balance of 15000 although 23000 have been applied to
  it, since each settlement starts again from the full subtotal and fee.
\<close>

theorem outstanding_balance_counterexample:
  "fst (create_order tienda0 ''2024-01-01 10:00:00'' 1 [(''Arandanos_125g'', - 1)] False) = Inr 1
   \<and> p_saldo_pendiente (last (ws_pedidos (snd (create_order tienda0 ''2024-01-01 10:00:00'' 1
          [(''Arandanos_125g'', - 1)] False)))) = - 5000
   \<and> p_saldo_pendiente (last (ws_pedidos (snd (create_order tienda0 ''2024-01-01 10:00:00'' 1
          [(''Arandanos_125g'', - 1)] False)))) < 0
   \<and> fst (mark_order_delivered tienda1 ''2024-01-02 09:00:00'' 1 ''Pago parcial'' 15000) =
       Inr \<lparr>prod_paid = 15000, domicilio_paid = 0, saldo_total = 8000\<rparr>
   \<and> fst (mark_order_delivered tienda2 ''2024-01-03 09:00:00'' 1 ''Efectivo'' 8000) =
       Inr \<lparr>prod_paid = 8000, domicilio_paid = 0, saldo_total = 15000\<rparr>
   \<and> map (\<lambda>r. (p_id r, p_subtotal_productos r, p_monto_domicilio r, p_saldo_pendiente r))
         (ws_pedidos tienda3) = [(1, 20000, 3000, 15000)]
   \<and> sum_list (map (\<lambda>e. f_ingreso_productos_recibido e + f_ingreso_domicilio_recibido e)
         (filter (\<lambda>e. f_id_pedido e = 1) (ws_flujo tienda3))) = 23000
   \<and> \<not> p_saldo_pendiente (hd (ws_pedidos tienda3)) \<le>
         real_of_int (p_subtotal_productos (hd (ws_pedidos tienda3)))
         + real_of_int (p_monto_domicilio (hd (ws_pedidos tienda3)))
         - sum_list (map (\<lambda>e. f_ingreso_productos_recibido e + f_ingreso_domicilio_recibido e)
             (filter (\<lambda>e. f_id_pedido e = 1) (ws_flujo tienda3)))"
proof -
  let ?pc = "[(''Arandanos_125g'', - 1::int)]"
  let ?co = "create_order tienda0 ''2024-01-01 10:00:00'' 1 ?pc False"
  have "validar_stock (get_inventory_map (ws_inventario tienda0)) ?pc = None"
    by simp
  from create_order_fst [OF tienda0_facts(1) this tienda0_facts(2)]
  have f: "fst ?co = Inr 1"
    by (simp add: tienda0_facts(3) next_id_for_sheet_def)
  then have h: "?co = (Inr 1, snd ?co)"
    by (simp add: prod_eq_iff)
  have s: "p_saldo_pendiente (last (ws_pedidos (snd ?co))) = - 5000"
    by (subst create_order_Inr_store(2) [OF h]) (simp add: precio_de_def PRODUCTOS_def)
  then have n: "p_saldo_pendiente (last (ws_pedidos (snd ?co))) < 0"
    by simp
  have p: "map (\<lambda>r. (p_id r, p_subtotal_productos r, p_monto_domicilio r, p_saldo_pendiente r))
         (ws_pedidos tienda3) = [(1, 20000, 3000, 15000)]"
    unfolding tienda3_sheets(1) by (simp add: pedido1_def)
  have a: "sum_list (map (\<lambda>e. f_ingreso_productos_recibido e + f_ingreso_domicilio_recibido e)
         (filter (\<lambda>e. f_id_pedido e = 1) (ws_flujo tienda3))) = 23000"
    unfolding tienda3_sheets(2) by simp
  have b: "\<not> p_saldo_pendiente (hd (ws_pedidos tienda3)) \<le>
         real_of_int (p_subtotal_productos (hd (ws_pedidos tienda3)))
         + real_of_int (p_monto_domicilio (hd (ws_pedidos tienda3)))
         - sum_list (map (\<lambda>e. f_ingreso_productos_recibido e + f_ingreso_domicilio_recibido e)
             (filter (\<lambda>e. f_id_pedido e = 1) (ws_flujo tienda3)))"
    unfolding a unfolding tienda3_sheets(1) by (simp add: pedido1_def)
  from f s n tienda2_sheets(3) tienda3_sheets(3) p a b show ?thesis
    by (intro conjI)
qed

section \<open>Registering a customer\<close>

text \<open>
  Claim C7. Registering a customer is the form handler followed by \<open>add_cliente\<close>.
  With an empty name the handler refuses with \<open>Nombre requerido\<close> and writes nothing.
  Otherwise exactly one customer row is appended, with the name, phone and address given
  and a fresh identifier, which is returned: 1 for an empty sheet, the largest identifier
  of the sheet plus one otherwise.
\<close>

theorem register_customer:
  "(n = [] \<longrightarrow> form_add_cliente st n t d = (Inl ''Nombre requerido'', st))
   \<and> (n \<noteq> [] \<longrightarrow>
        (\<exists>cid. form_add_cliente st n t d =
                 (Inr cid, st\<lparr>ws_clientes := ws_clientes st @
                    [\<lparr>c_id = cid, c_nombre = n, c_telefono = t, c_direccion = d\<rparr>]\<rparr>)
             \<and> cid = (if ws_clientes st = [] then 1 else Max (c_id ` set (ws_clientes st)) + 1)
             \<and> cid \<notin> c_id ` set (ws_clientes st)))"
proof (intro conjI impI)
  assume "n = []"
  then show "form_add_cliente st n t d = (Inl ''Nombre requerido'', st)"
    by (simp add: form_add_cliente_def)
next
  assume n: "n \<noteq> []"
  let ?cid = "next_id_for_sheet (map c_id (ws_clientes st))"
  from n have a: "form_add_cliente st n t d =
                 (Inr ?cid, st\<lparr>ws_clientes := ws_clientes st @
                    [\<lparr>c_id = ?cid, c_nombre = n, c_telefono = t, c_direccion = d\<rparr>]\<rparr>)"
    by (simp add: form_add_cliente_def add_cliente_def Let_def)
  have b: "?cid = (if ws_clientes st = [] then 1 else Max (c_id ` set (ws_clientes st)) + 1)"
    by (simp add: next_id_for_sheet_def max_list_Max)
  from next_id_for_sheet_fresh [of "map c_id (ws_clientes st)"]
  have c: "?cid \<notin> c_id ` set (ws_clientes st)" by simp
  from a b c show "\<exists>cid. form_add_cliente st n t d =
                 (Inr cid, st\<lparr>ws_clientes := ws_clientes st @
                    [\<lparr>c_id = cid, c_nombre = n, c_telefono = t, c_direccion = d\<rparr>]\<rparr>)
             \<and> cid = (if ws_clientes st = [] then 1 else Max (c_id ` set (ws_clientes st)) + 1)
             \<and> cid \<notin> c_id ` set (ws_clientes st)"
    by (intro exI [of _ ?cid] conjI)
qed

theorem register_customer_witness:
  "form_add_cliente tienda0 [] ''301'' ''Calle 2'' = (Inl ''Nombre requerido'', tienda0)
   \<and> (\<exists>cid. form_add_cliente tienda0 ''Luis'' ''301'' ''Calle 2'' =
                 (Inr cid, tienda0\<lparr>ws_clientes := ws_clientes tienda0 @
                    [\<lparr>c_id = cid, c_nombre = ''Luis'', c_telefono = ''301'', c_direccion = ''Calle 2''\<rparr>]\<rparr>)
             \<and> cid = 2)"
proof -
  from register_customer [of "[]" tienda0 "''301''" "''Calle 2''", THEN conjunct1, THEN mp, OF refl]
  have a: "form_add_cliente tienda0 [] ''301'' ''Calle 2'' = (Inl ''Nombre requerido'', tienda0)" .
  have "''Luis'' \<noteq> []" by simp
  from register_customer [of "''Luis''" tienda0 "''301''" "''Calle 2''", THEN conjunct2, THEN mp, OF this]
  obtain cid where
    c: "form_add_cliente tienda0 ''Luis'' ''301'' ''Calle 2'' =
                 (Inr cid, tienda0\<lparr>ws_clientes := ws_clientes tienda0 @
                    [\<lparr>c_id = cid, c_nombre = ''Luis'', c_telefono = ''301'', c_direccion = ''Calle 2''\<rparr>]\<rparr>)"
    and "cid = (if ws_clientes tienda0 = [] then 1 else Max (c_id ` set (ws_clientes tienda0)) + 1)"
    by (elim exE conjE)
  then have "cid = 2"
    by (simp add: tienda0_def)
  with a c show ?thesis
    by (intro conjI exI [of _ cid])
qed

section \<open>The cash flow summary\<close>

text \<open>
  Claim C6. For every state of the cash flow and expense sheets, the summary computes
  the product revenue of \<open>Efectivo\<close>, of \<open>Transferencia\<close> and of every other payment
  method as the sums of the product amounts of those entries; the total product revenue is
  the sum of the three, which is the sum of the product amounts of all entries. The
  delivery revenue is summed apart, and the available balance is the total product revenue
  minus the total of the expenses: changing the delivery amounts of the entries in any
  way changes neither the total product revenue nor the available balance.
\<close>

theorem cash_flow_summary:
  "total_prod_efectivo (flujo_gastos_resumen df_flujo df_gastos) =
     sum_list (map f_ingreso_productos_recibido
                 (filter (\<lambda>e. f_medio_pago e = ''Efectivo'') df_flujo))
   \<and> total_prod_transfer (flujo_gastos_resumen df_flujo df_gastos) =
     sum_list (map f_ingreso_productos_recibido
                 (filter (\<lambda>e. f_medio_pago e = ''Transferencia'') df_flujo))
   \<and> total_prod_other (flujo_gastos_resumen df_flujo df_gastos) =
     sum_list (map f_ingreso_productos_recibido
                 (filter (\<lambda>e. \<not> (f_medio_pago e = ''Efectivo'' \<or> f_medio_pago e = ''Transferencia''))
                    df_flujo))
   \<and> total_prod (flujo_gastos_resumen df_flujo df_gastos) =
     total_prod_efectivo (flujo_gastos_resumen df_flujo df_gastos)
     + total_prod_transfer (flujo_gastos_resumen df_flujo df_gastos)
     + total_prod_other (flujo_gastos_resumen df_flujo df_gastos)
   \<and> total_prod (flujo_gastos_resumen df_flujo df_gastos) =
     sum_list (map f_ingreso_productos_recibido df_flujo)
   \<and> total_domicilios (flujo_gastos_resumen df_flujo df_gastos) =
     sum_list (map f_ingreso_domicilio_recibido df_flujo)
   \<and> total_gastos (flujo_gastos_resumen df_flujo df_gastos) = sum_list (map g_monto df_gastos)
   \<and> saldo_real (flujo_gastos_resumen df_flujo df_gastos) =
     sum_list (map f_ingreso_productos_recibido df_flujo) - sum_list (map g_monto df_gastos)
   \<and> total_prod (flujo_gastos_resumen
                 (map (\<lambda>e. e\<lparr>f_ingreso_domicilio_recibido := g e\<rparr>) df_flujo) df_gastos) =
     total_prod (flujo_gastos_resumen df_flujo df_gastos)
   \<and> saldo_real (flujo_gastos_resumen
                 (map (\<lambda>e. e\<lparr>f_ingreso_domicilio_recibido := g e\<rparr>) df_flujo) df_gastos) =
     saldo_real (flujo_gastos_resumen df_flujo df_gastos)"
proof -
  have s: "\<And>fl. saldo_real (flujo_gastos_resumen fl df_gastos) =
     sum_list (map f_ingreso_productos_recibido fl) - sum_list (map g_monto df_gastos)"
    unfolding resumen_fields(7) total_prod_all resumen_fields(6) ..
  have i: "saldo_real (flujo_gastos_resumen
                 (map (\<lambda>e. e\<lparr>f_ingreso_domicilio_recibido := g e\<rparr>) df_flujo) df_gastos) =
     saldo_real (flujo_gastos_resumen df_flujo df_gastos)"
    unfolding s by (simp add: o_def)
  from resumen_fields(1-6) [of df_flujo df_gastos] total_prod_all [of df_flujo df_gastos]
    s [of df_flujo] total_prod_domicilio_independent [of g df_flujo df_gastos] i
  show ?thesis
    by (intro conjI)
qed

theorem cash_flow_summary_witness:
  "total_prod_efectivo (flujo_gastos_resumen flujo_ejemplo gastos_ejemplo) = 15000
   \<and> total_prod_transfer (flujo_gastos_resumen flujo_ejemplo gastos_ejemplo) = 20000
   \<and> total_prod_other (flujo_gastos_resumen flujo_ejemplo gastos_ejemplo) = 5000
   \<and> total_prod (flujo_gastos_resumen flujo_ejemplo gastos_ejemplo) = 40000
   \<and> total_domicilios (flujo_gastos_resumen flujo_ejemplo gastos_ejemplo) = 6000
   \<and> total_gastos (flujo_gastos_resumen flujo_ejemplo gastos_ejemplo) = 7000
   \<and> saldo_real (flujo_gastos_resumen flujo_ejemplo gastos_ejemplo) = 33000
   \<and> saldo_real (flujo_gastos_resumen
        (map (\<lambda>e. e\<lparr>f_ingreso_domicilio_recibido := 1000000\<rparr>) flujo_ejemplo) gastos_ejemplo) = 33000"
proof -
  note t = cash_flow_summary [of flujo_ejemplo gastos_ejemplo "\<lambda>e. 1000000"]
  have 1: "total_prod_efectivo (flujo_gastos_resumen flujo_ejemplo gastos_ejemplo) = 15000"
    unfolding t [THEN conjunct1] by (simp add: flujo_ejemplo_def)
  have 2: "total_prod_transfer (flujo_gastos_resumen flujo_ejemplo gastos_ejemplo) = 20000"
    unfolding t [THEN conjunct2, THEN conjunct1] by (simp add: flujo_ejemplo_def)
  have 3: "total_prod_other (flujo_gastos_resumen flujo_ejemplo gastos_ejemplo) = 5000"
    unfolding t [THEN conjunct2, THEN conjunct2, THEN conjunct1] by (simp add: flujo_ejemplo_def)
  have 4: "total_prod (flujo_gastos_resumen flujo_ejemplo gastos_ejemplo) = 40000"
    unfolding t [THEN conjunct2, THEN conjunct2, THEN conjunct2, THEN conjunct2, THEN conjunct1]
    by (simp add: flujo_ejemplo_def)
  have 5: "total_domicilios (flujo_gastos_resumen flujo_ejemplo gastos_ejemplo) = 6000"
    unfolding t [THEN conjunct2, THEN conjunct2, THEN conjunct2, THEN conjunct2, THEN conjunct2,
                 THEN conjunct1]
    by (simp add: flujo_ejemplo_def)
  have 6: "total_gastos (flujo_gastos_resumen flujo_ejemplo gastos_ejemplo) = 7000"
    unfolding t [THEN conjunct2, THEN conjunct2, THEN conjunct2, THEN conjunct2, THEN conjunct2,
                 THEN conjunct2, THEN conjunct1]
    by (simp add: gastos_ejemplo_def)
  have 7: "saldo_real (flujo_gastos_resumen flujo_ejemplo gastos_ejemplo) = 33000"
    unfolding t [THEN conjunct2, THEN conjunct2, THEN conjunct2, THEN conjunct2, THEN conjunct2,
                 THEN conjunct2, THEN conjunct2, THEN conjunct1]
    by (simp add: flujo_ejemplo_def gastos_ejemplo_def)
  have 8: "saldo_real (flujo_gastos_resumen
        (map (\<lambda>e. e\<lparr>f_ingreso_domicilio_recibido := 1000000\<rparr>) flujo_ejemplo) gastos_ejemplo) = 33000"
    unfolding t [THEN conjunct2, THEN conjunct2, THEN conjunct2, THEN conjunct2, THEN conjunct2,
                 THEN conjunct2, THEN conjunct2, THEN conjunct2, THEN conjunct2]
    by (rule 7)
  from 1 2 3 4 5 6 7 8 show ?thesis
    by (intro conjI)
qed

end
